theory Spec2Isabelle
  imports Complex_Main "HOL-Library.Sublist"
begin

section \<open>Responses and documents\<close>

text \<open>
  Every route handler answers with \<open>res.status(code).json({success, message, data})\<close>.
  A response is either a success (status code, message, payload) or a failure
  (status code, message). A handler is a function from the collections it reads to
  its response and the collections as it leaves them.
\<close>

datatype 'a response = Success nat string 'a | Failure nat string

type_synonym objectId = string

text \<open>
  Numbers of the source are JavaScript doubles. A double is modelled by the rational
  it denotes, and an arithmetic result by the exact result rounded to the nearest
  double (\<open>roundDouble\<close> below, used where the source subtracts amounts of money).
  Timestamps (milliseconds since the epoch) are integers, on which the doubles'
  arithmetic is exact below \<open>2 ^ 53\<close>.
\<close>

subsection \<open>Rounding to double precision\<close>

text \<open>
  IEEE 754 binary64, round to nearest, ties to even. A positive \<open>x\<close> is scaled by a
  power of two \<open>2 ^ k\<close> until \<open>2 ^ 52 \<le> x / 2 ^ k < 2 ^ 53\<close>, with \<open>k\<close> not below
  \<open>- 1074\<close> (the subnormal numbers); the scaled value is rounded to an integer and
  scaled back. Overflow to \<open>Infinity\<close> is not modelled: it does not occur in a
  difference \<open>x - y\<close> of finite doubles with \<open>0 \<le> y \<le> x\<close>.
\<close>

definition pow2 :: "int \<Rightarrow> rat" where
  "pow2 k = (if 0 \<le> k then 2 ^ nat k else 1 / 2 ^ nat (- k))"

definition halfEven :: "rat \<Rightarrow> int" where
  "halfEven q =
     (let f = \<lfloor>q\<rfloor>; r = q - of_int f
      in if r < 1 / 2 then f else if 1 / 2 < r then f + 1 else if even f then f else f + 1)"

function scaleDown :: "rat \<Rightarrow> int \<Rightarrow> int" where
  "scaleDown x k = (if 2 ^ 53 \<le> x then scaleDown (x / 2) (k + 1) else k)"
  by pat_completeness auto
termination
proof (relation "measure (\<lambda>(x, k). nat \<lfloor>x\<rfloor>)")
  show "wf (measure (\<lambda>(x, k). nat \<lfloor>x\<rfloor>))" by simp
next
  fix x :: rat and k :: int
  assume h: "2 ^ 53 \<le> x"
  then have "x / 2 \<le> x - 1" by simp
  then have "\<lfloor>x / 2\<rfloor> \<le> \<lfloor>x - 1\<rfloor>" by (rule floor_mono)
  moreover have "0 < \<lfloor>x\<rfloor>" using h by (simp add: floor_less_iff not_less[symmetric] le_floor_iff)
  ultimately show "((x / 2, k + 1), (x, k)) \<in> measure (\<lambda>(x, k). nat \<lfloor>x\<rfloor>)"
    by simp
qed

function scaleUp :: "rat \<Rightarrow> int \<Rightarrow> int" where
  "scaleUp x k = (if x < 2 ^ 52 \<and> - 1074 < k then scaleUp (2 * x) (k - 1) else k)"
  by pat_completeness auto
termination
  by (relation "measure (\<lambda>(x, k). nat (k + 1074))") auto

declare scaleDown.simps [simp del] scaleUp.simps [simp del]

definition ulpExponent :: "rat \<Rightarrow> int" where
  "ulpExponent x = (if 2 ^ 53 \<le> x then scaleDown x 0 else scaleUp x 0)"

definition roundPositive :: "rat \<Rightarrow> rat" where
  "roundPositive x = of_int (halfEven (x / pow2 (ulpExponent x))) * pow2 (ulpExponent x)"

definition roundDouble :: "rat \<Rightarrow> rat" where
  "roundDouble x = (if x = 0 then 0 else if 0 < x then roundPositive x else - roundPositive (- x))"


subsection \<open>Wallet (routes/wallet)\<close>

text \<open>A \<open>User\<close> document; \<open>walletBalance\<close> may be undefined (\<open>None\<close>).\<close>

record user =
  user_id :: objectId
  role :: string
  walletBalance :: "rat option"

text \<open>\<open>user.walletBalance || 0\<close>: undefined and \<open>0\<close> both give \<open>0\<close>.\<close>

definition currentBalance :: "user \<Rightarrow> rat" where
  "currentBalance u = (case walletBalance u of None \<Rightarrow> 0 | Some x \<Rightarrow> (if x = 0 then 0 else x))"

definition findUserById :: "user list \<Rightarrow> objectId \<Rightarrow> user option" where
  "findUserById us i = List.find (\<lambda>u. user_id u = i) us"

text \<open>\<open>doc.save()\<close> of a document that was read from the collection: the first
  document with the same id is replaced.\<close>

fun saveUser :: "user \<Rightarrow> user list \<Rightarrow> user list" where
  "saveUser d [] = []"
| "saveUser d (x # xs) = (if user_id x = user_id d then d # xs else x # saveUser d xs)"

record deductBody =
  amount :: rat
  reason :: string

record deductData =
  newBalance :: rat
  amountDeducted :: rat
  deductReason :: string

text \<open>\<open>x - y\<close> on doubles.\<close>

definition subtract :: "rat \<Rightarrow> rat \<Rightarrow> rat" where
  "subtract x y = roundDouble (x - y)"

text \<open>\<open>body('amount').isFloat({ min: 1 })\<close> and \<open>body('reason').notEmpty()\<close>.\<close>

definition deductValid :: "deductBody \<Rightarrow> bool" where
  "deductValid b \<longleftrightarrow> 1 \<le> amount b \<and> reason b \<noteq> []"

definition walletDeduct :: "user list \<Rightarrow> user \<Rightarrow> deductBody \<Rightarrow> deductData response \<times> user list" where
  "walletDeduct us reqUser b =
     (if \<not> deductValid b then (Failure 400 ''Validation errors'', us)
      else case findUserById us (user_id reqUser) of
        None \<Rightarrow> (Failure 404 ''User not found'', us)
      | Some u \<Rightarrow>
          if currentBalance u < amount b
          then (Failure 400 ''Insufficient wallet balance'', us)
          else
            let u' = u\<lparr>walletBalance := Some (subtract (currentBalance u) (amount b))\<rparr>
            in (Success 200 ''Amount deducted successfully''
                  \<lparr>newBalance = subtract (currentBalance u) (amount b),
                   amountDeducted = amount b, deductReason = reason b\<rparr>,
                saveUser u' us))"

text \<open>A user with a balance of 100, and a request to deduct one half.\<close>

definition walletUser :: user where
  "walletUser = \<lparr>user_id = ''u1'', role = ''patient'', walletBalance = Some 100\<rparr>"

definition halfDeduct :: deductBody where
  "halfDeduct = \<lparr>amount = 1 / 2, reason = ''fee''\<rparr>"

definition fortyDeduct :: deductBody where
  "fortyDeduct = \<lparr>amount = 40, reason = ''fee''\<rparr>"

text \<open>A balance of 100.1 and an amount of 1.7, as the doubles nearest to them.\<close>

definition fractionUser :: user where
  "fractionUser = \<lparr>user_id = ''u2'', role = ''patient'',
     walletBalance = Some (3521955646092083 / 35184372088832)\<rparr>"

definition fractionDeduct :: deductBody where
  "fractionDeduct = \<lparr>amount = 7656119366529843 / 4503599627370496, reason = ''fee''\<rparr>"

subsection \<open>Appointments (routes/appointments): documents\<close>

datatype status = Scheduled | Confirmed | InProgress | Completed | Cancelled | NoShow

text \<open>The strings of \<open>isIn(['scheduled', 'confirmed', 'in-progress', 'completed',
  'cancelled', 'no-show'])\<close>.\<close>

definition statusOfString :: "string \<Rightarrow> status option" where
  "statusOfString x =
     (if x = ''scheduled'' then Some Scheduled
      else if x = ''confirmed'' then Some Confirmed
      else if x = ''in-progress'' then Some InProgress
      else if x = ''completed'' then Some Completed
      else if x = ''cancelled'' then Some Cancelled
      else if x = ''no-show'' then Some NoShow
      else None)"

fun stringOfStatus :: "status \<Rightarrow> string" where
  "stringOfStatus Scheduled = ''scheduled''"
| "stringOfStatus Confirmed = ''confirmed''"
| "stringOfStatus InProgress = ''in-progress''"
| "stringOfStatus Completed = ''completed''"
| "stringOfStatus Cancelled = ''cancelled''"
| "stringOfStatus NoShow = ''no-show''"

record reminder =
  reminderType :: string
  scheduledTime :: int

text \<open>
  An \<open>Appointment\<close> document (\<open>notesText\<close> is its field \<open>notes\<close>). Optional
  fields are \<open>None\<close> while undefined.
  \<open>scheduledDate\<close> and \<open>cancelledAt\<close> are the time values of the stored dates.
\<close>

record appointment =
  appointment_id :: objectId
  patient :: objectId
  practitioner :: objectId
  therapyType :: string
  scheduledDate :: int
  startTime :: string
  endTime :: string
  duration :: int
  cost :: rat
  notesText :: "string option"
  preSessionInstructions :: "string option"
  postSessionInstructions :: "string option"
  status :: status
  cancellationReason :: "string option"
  cancelledBy :: "string option"
  cancelledAt :: "int option"
  reminders :: "reminder list"

record patientDoc =
  patient_id :: objectId
  userId :: objectId

record practitionerDoc =
  practitioner_id :: objectId

text \<open>A \<open>Notification\<close> document; its message text (which formats the date in the
  server's locale) is left out.\<close>

record notification =
  recipient :: objectId
  notificationType :: string
  title :: string
  priority :: string
  dataAppointmentId :: objectId

text \<open>The collections, and the lines written by \<open>console.error\<close>.\<close>

record store =
  appointments :: "appointment list"
  patients :: "patientDoc list"
  practitioners :: "practitionerDoc list"
  notifications :: "notification list"
  errorLog :: "string list"

text \<open>
  What a request takes from outside the collections: the clock (\<open>new Date()\<close>), the
  id given to a new document, and whether the two steps that follow the appointment
  write in the booking handler throw: \<open>notification.save()\<close> and
  \<open>notificationService.sendAppointmentConfirmation\<close>. Every other store call is
  taken to succeed.
\<close>

record env =
  now :: int
  newId :: objectId
  notificationSaveFails :: bool
  sendFails :: bool

definition findAppointmentById :: "store \<Rightarrow> objectId \<Rightarrow> appointment option" where
  "findAppointmentById s i = List.find (\<lambda>a. appointment_id a = i) (appointments s)"

definition findPatientById :: "store \<Rightarrow> objectId \<Rightarrow> patientDoc option" where
  "findPatientById s i = List.find (\<lambda>p. patient_id p = i) (patients s)"

definition findPatientByUserId :: "store \<Rightarrow> objectId \<Rightarrow> patientDoc option" where
  "findPatientByUserId s i = List.find (\<lambda>p. userId p = i) (patients s)"

definition findPractitionerById :: "store \<Rightarrow> objectId \<Rightarrow> practitionerDoc option" where
  "findPractitionerById s i = List.find (\<lambda>p. practitioner_id p = i) (practitioners s)"

text \<open>\<open>appointment.save()\<close> of a document read from the collection.\<close>

fun saveAppointment :: "appointment \<Rightarrow> appointment list \<Rightarrow> appointment list" where
  "saveAppointment d [] = []"
| "saveAppointment d (x # xs) =
     (if appointment_id x = appointment_id d then d # xs else x # saveAppointment d xs)"

subsection \<open>POST /appointments\<close>

record createBody =
  patientId :: objectId
  practitionerId :: objectId
  req_therapyType :: string
  req_scheduledDate :: "int option"
  req_startTime :: string
  req_endTime :: string
  req_duration :: int
  req_cost :: rat
  req_notes :: "string option"
  req_preSessionInstructions :: "string option"
  req_postSessionInstructions :: "string option"

text \<open>
  The validators of the route. \<open>req_scheduledDate\<close> is \<open>None\<close> for a string that
  \<open>isISO8601\<close> rejects and otherwise the time value of \<open>new Date(scheduledDate)\<close>.
\<close>

definition isHexDigit :: "char \<Rightarrow> bool" where
  "isHexDigit c \<longleftrightarrow> c \<in> set ''0123456789abcdefABCDEF''"

definition isMongoId :: "string \<Rightarrow> bool" where
  "isMongoId x \<longleftrightarrow> length x = 24 \<and> list_all isHexDigit x"

definition therapyTypes :: "string list" where
  "therapyTypes = [''abhyanga'', ''shirodhara'', ''basti'', ''nasya'', ''virechana'',
     ''rakta-mokshana'', ''consultation'']"

definition createValid :: "createBody \<Rightarrow> bool" where
  "createValid b \<longleftrightarrow>
     isMongoId (patientId b) \<and> isMongoId (practitionerId b) \<and>
     req_therapyType b \<in> set therapyTypes \<and>
     req_scheduledDate b \<noteq> None \<and>
     req_startTime b \<noteq> [] \<and> req_endTime b \<noteq> [] \<and>
     15 \<le> req_duration b \<and> 0 \<le> req_cost b"

text \<open>\<open>status: { $in: ['scheduled', 'confirmed'] }\<close>\<close>

definition activeStatus :: "status \<Rightarrow> bool" where
  "activeStatus x \<longleftrightarrow> x \<in> set [Scheduled, Confirmed]"

text \<open>The conflict query: \<open>Appointment.findOne({practitioner, scheduledDate, startTime,
  status: {$in: [...]}})\<close>.\<close>

definition findConflict :: "store \<Rightarrow> objectId \<Rightarrow> int \<Rightarrow> string \<Rightarrow> appointment option" where
  "findConflict s pid d st =
     List.find (\<lambda>a. practitioner a = pid \<and> scheduledDate a = d \<and> startTime a = st \<and>
                     activeStatus (status a)) (appointments s)"

text \<open>The \<open>reminders\<close> array of the new document.\<close>

definition defaultReminders :: "int \<Rightarrow> reminder list" where
  "defaultReminders d =
     [\<lparr>reminderType = ''email'', scheduledTime = d - 24 * 60 * 60 * 1000\<rparr>,
      \<lparr>reminderType = ''sms'', scheduledTime = d - 2 * 60 * 60 * 1000\<rparr>]"

text \<open>Modelled from the spec: the schema (models/Appointment) is not among the sources.
  A new appointment is persisted with status \<open>scheduled\<close>; the cancellation metadata
  are populated only by the operations that write them, so they start undefined.\<close>

definition schemaDefaultStatus :: status where
  "schemaDefaultStatus = Scheduled"

definition newAppointment :: "env \<Rightarrow> createBody \<Rightarrow> int \<Rightarrow> appointment" where
  "newAppointment e b d =
     \<lparr>appointment_id = newId e,
      patient = patientId b,
      practitioner = practitionerId b,
      therapyType = req_therapyType b,
      scheduledDate = d,
      startTime = req_startTime b,
      endTime = req_endTime b,
      duration = req_duration b,
      cost = req_cost b,
      notesText = req_notes b,
      preSessionInstructions = req_preSessionInstructions b,
      postSessionInstructions = req_postSessionInstructions b,
      status = schemaDefaultStatus,
      cancellationReason = None,
      cancelledBy = None,
      cancelledAt = None,
      reminders = defaultReminders d\<rparr>"

definition confirmationNotification :: "patientDoc \<Rightarrow> appointment \<Rightarrow> notification" where
  "confirmationNotification p a =
     \<lparr>recipient = userId p, notificationType = ''appointment_confirmation'',
      title = ''Appointment Confirmed'', priority = ''high'',
      dataAppointmentId = appointment_id a\<rparr>"

definition logError :: "string \<Rightarrow> store \<Rightarrow> store" where
  "logError line s = s\<lparr>errorLog := errorLog s @ [line]\<rparr>"

text \<open>
  The handler. After \<open>appointment.save()\<close> the notification is saved outside any inner
  \<open>try\<close>, so a throw there reaches the handler's outer \<open>catch\<close> (500); only the
  dispatch is wrapped in its own \<open>try\<close>/\<open>catch\<close>, which logs and goes on.
\<close>

definition createAppointment :: "env \<Rightarrow> store \<Rightarrow> createBody \<Rightarrow> appointment response \<times> store" where
  "createAppointment e s b =
     (if \<not> createValid b then (Failure 400 ''Validation errors'', s)
      else case req_scheduledDate b of
        None \<Rightarrow> (Failure 400 ''Validation errors'', s)
      | Some d \<Rightarrow>
      (case findPatientById s (patientId b) of
        None \<Rightarrow> (Failure 404 ''Patient not found'', s)
      | Some p \<Rightarrow>
      (case findPractitionerById s (practitionerId b) of
        None \<Rightarrow> (Failure 404 ''Practitioner not found'', s)
      | Some pr \<Rightarrow>
      (case findConflict s (practitionerId b) d (req_startTime b) of
        Some conflict \<Rightarrow> (Failure 400 ''Time slot is already booked'', s)
      | None \<Rightarrow>
          let a = newAppointment e b d;
              s1 = s\<lparr>appointments := appointments s @ [a]\<rparr>
          in if notificationSaveFails e
             then (Failure 500 ''Server error creating appointment'',
                   logError ''Create appointment error:'' s1)
             else
               let s2 = s1\<lparr>notifications := notifications s1 @ [confirmationNotification p a]\<rparr>;
                   s3 = (if sendFails e
                         then logError ''Failed to send appointment confirmation:'' s2
                         else s2)
               in (Success 201 ''Appointment created successfully'' a, s3)))))"

subsection \<open>PUT /appointments/:id\<close>

text \<open>The request body; a field is \<open>None\<close> when \<open>req.body[field]\<close> is undefined.\<close>

record updateBody =
  upd_scheduledDate :: "int option"
  upd_startTime :: "string option"
  upd_endTime :: "string option"
  upd_duration :: "int option"
  upd_notes :: "string option"
  upd_preSessionInstructions :: "string option"
  upd_postSessionInstructions :: "string option"

datatype field =
  ScheduledDateField | StartTimeField | EndTimeField | DurationField | NotesField
  | PreSessionInstructionsField | PostSessionInstructionsField

definition allowedFields :: "field list" where
  "allowedFields =
     [ScheduledDateField, StartTimeField, EndTimeField, DurationField, NotesField,
      PreSessionInstructionsField, PostSessionInstructionsField]"

text \<open>The body of the \<open>forEach\<close>: \<open>if (req.body[field] !== undefined)
  appointment[field] = req.body[field]\<close>.\<close>

fun assignField :: "updateBody \<Rightarrow> appointment \<Rightarrow> field \<Rightarrow> appointment" where
  "assignField b a ScheduledDateField =
     (case upd_scheduledDate b of None \<Rightarrow> a | Some v \<Rightarrow> a\<lparr>scheduledDate := v\<rparr>)"
| "assignField b a StartTimeField =
     (case upd_startTime b of None \<Rightarrow> a | Some v \<Rightarrow> a\<lparr>startTime := v\<rparr>)"
| "assignField b a EndTimeField =
     (case upd_endTime b of None \<Rightarrow> a | Some v \<Rightarrow> a\<lparr>endTime := v\<rparr>)"
| "assignField b a DurationField =
     (case upd_duration b of None \<Rightarrow> a | Some v \<Rightarrow> a\<lparr>duration := v\<rparr>)"
| "assignField b a NotesField =
     (case upd_notes b of None \<Rightarrow> a | Some v \<Rightarrow> a\<lparr>notesText := Some v\<rparr>)"
| "assignField b a PreSessionInstructionsField =
     (case upd_preSessionInstructions b of None \<Rightarrow> a
      | Some v \<Rightarrow> a\<lparr>preSessionInstructions := Some v\<rparr>)"
| "assignField b a PostSessionInstructionsField =
     (case upd_postSessionInstructions b of None \<Rightarrow> a
      | Some v \<Rightarrow> a\<lparr>postSessionInstructions := Some v\<rparr>)"

text \<open>The permission check of the update and the cancel handlers: a patient may
  touch only an appointment of their own patient profile.\<close>

definition accessDenied :: "store \<Rightarrow> user \<Rightarrow> appointment \<Rightarrow> bool" where
  "accessDenied s reqUser a \<longleftrightarrow>
     role reqUser = ''patient'' \<and>
     (case findPatientByUserId s (user_id reqUser) of
        None \<Rightarrow> True
      | Some p \<Rightarrow> patient a \<noteq> patient_id p)"

definition updateAppointment ::
  "store \<Rightarrow> user \<Rightarrow> objectId \<Rightarrow> updateBody \<Rightarrow> appointment response \<times> store" where
  "updateAppointment s reqUser i b =
     (case findAppointmentById s i of
        None \<Rightarrow> (Failure 404 ''Appointment not found'', s)
      | Some a \<Rightarrow>
          if accessDenied s reqUser a then (Failure 403 ''Access denied'', s)
          else
            let a' = foldl (assignField b) a allowedFields
            in (Success 200 ''Appointment updated successfully'' a',
                s\<lparr>appointments := saveAppointment a' (appointments s)\<rparr>))"

subsection \<open>PUT /appointments/:id/status\<close>

record statusBody =
  new_status :: string
  new_cancellationReason :: "string option"

text \<open>\<open>body('status').isIn([...])\<close> and
  \<open>body('cancellationReason').optional().isLength({ min: 1 })\<close>.\<close>

definition statusValid :: "statusBody \<Rightarrow> bool" where
  "statusValid b \<longleftrightarrow>
     statusOfString (new_status b) \<noteq> None \<and>
     (case new_cancellationReason b of None \<Rightarrow> True | Some r \<Rightarrow> 1 \<le> length r)"

text \<open>\<open>if (cancellationReason)\<close>: undefined and the empty string are falsy.\<close>

definition truthy :: "string option \<Rightarrow> bool" where
  "truthy x \<longleftrightarrow> (case x of None \<Rightarrow> False | Some r \<Rightarrow> r \<noteq> [])"

definition statusNotification :: "appointment \<Rightarrow> string \<Rightarrow> notification" where
  "statusNotification a st =
     \<lparr>recipient = patient a, notificationType = ''appointment_confirmation'',
      title = ''Appointment '' @ st, priority = ''medium'',
      dataAppointmentId = appointment_id a\<rparr>"

definition stampCancellation :: "env \<Rightarrow> user \<Rightarrow> string option \<Rightarrow> appointment \<Rightarrow> appointment" where
  "stampCancellation e reqUser r a =
     (if truthy r
      then a\<lparr>cancellationReason := r, cancelledBy := Some (role reqUser),
             cancelledAt := Some (now e)\<rparr>
      else a)"

definition updateStatus ::
  "env \<Rightarrow> store \<Rightarrow> user \<Rightarrow> objectId \<Rightarrow> statusBody \<Rightarrow> appointment response \<times> store" where
  "updateStatus e s reqUser i b =
     (if \<not> statusValid b then (Failure 400 ''Validation errors'', s)
      else case statusOfString (new_status b) of
        None \<Rightarrow> (Failure 400 ''Validation errors'', s)
      | Some st \<Rightarrow>
      (case findAppointmentById s i of
        None \<Rightarrow> (Failure 404 ''Appointment not found'', s)
      | Some a \<Rightarrow>
          let a' = stampCancellation e reqUser (new_cancellationReason b) (a\<lparr>status := st\<rparr>);
              s1 = s\<lparr>appointments := saveAppointment a' (appointments s)\<rparr>
          in if notificationSaveFails e
             then (Failure 500 ''Server error updating appointment status'',
                   logError ''Update appointment status error:'' s1)
             else (Success 200 ''Appointment status updated successfully'' a',
                   s1\<lparr>notifications :=
                        notifications s1 @ [statusNotification a' (new_status b)]\<rparr>)))"

subsection \<open>DELETE /appointments/:id\<close>

definition cancelAppointment ::
  "env \<Rightarrow> store \<Rightarrow> user \<Rightarrow> objectId \<Rightarrow> unit response \<times> store" where
  "cancelAppointment e s reqUser i =
     (case findAppointmentById s i of
        None \<Rightarrow> (Failure 404 ''Appointment not found'', s)
      | Some a \<Rightarrow>
          if accessDenied s reqUser a then (Failure 403 ''Access denied'', s)
          else
            let a' = a\<lparr>status := Cancelled, cancelledBy := Some (role reqUser),
                       cancelledAt := Some (now e)\<rparr>
            in (Success 200 ''Appointment cancelled successfully'' (),
                s\<lparr>appointments := saveAppointment a' (appointments s)\<rparr>))"

subsection \<open>Sequences of requests\<close>

text \<open>The four routes that write appointments, and the collections after a sequence
  of requests.\<close>

datatype request =
  CreateRequest env createBody
  | UpdateRequest user objectId updateBody
  | StatusRequest env user objectId statusBody
  | CancelRequest env user objectId

fun perform :: "store \<Rightarrow> request \<Rightarrow> store" where
  "perform s (CreateRequest e b) = snd (createAppointment e s b)"
| "perform s (UpdateRequest u i b) = snd (updateAppointment s u i b)"
| "perform s (StatusRequest e u i b) = snd (updateStatus e s u i b)"
| "perform s (CancelRequest e u i) = snd (cancelAppointment e s u i)"

definition performAll :: "store \<Rightarrow> request list \<Rightarrow> store" where
  "performAll s rs = foldl perform s rs"

subsection \<open>GET /appointments/availability: strings and dates\<close>

text \<open>
  \<open>parseInt(x)\<close> without a radix: leading white space is dropped, then a sign, then
  the prefix \<open>0x\<close>/\<open>0X\<close> selects radix 16; the longest run of digits is read and
  the rest ignored; no digit at all gives \<open>NaN\<close> (\<open>None\<close>).
\<close>

definition isWhiteSpace :: "char \<Rightarrow> bool" where
  "isWhiteSpace c \<longleftrightarrow> (of_char c :: nat) \<in> set [9, 10, 11, 12, 13, 32]"

definition digitValue :: "nat \<Rightarrow> char \<Rightarrow> nat option" where
  "digitValue radix c =
     (let n = (of_char c :: nat);
          v = (if 48 \<le> n \<and> n \<le> 57 then Some (n - 48)
               else if 97 \<le> n \<and> n \<le> 102 then Some (n - 87)
               else if 65 \<le> n \<and> n \<le> 70 then Some (n - 55)
               else None)
      in case v of None \<Rightarrow> None | Some d \<Rightarrow> (if d < radix then Some d else None))"

fun readDigits :: "nat \<Rightarrow> string \<Rightarrow> nat option \<Rightarrow> nat option" where
  "readDigits radix [] acc = acc"
| "readDigits radix (c # cs) acc =
     (case digitValue radix c of
        None \<Rightarrow> acc
      | Some d \<Rightarrow> readDigits radix cs (Some ((case acc of None \<Rightarrow> 0 | Some v \<Rightarrow> v) * radix + d)))"

definition hasHexPrefix :: "string \<Rightarrow> bool" where
  "hasHexPrefix x \<longleftrightarrow> take 2 x = ''0x'' \<or> take 2 x = ''0X''"

definition parseInt :: "string \<Rightarrow> int option" where
  "parseInt x =
     (let s0 = dropWhile isWhiteSpace x;
          negative = (take 1 s0 = ''-'');
          s1 = (if take 1 s0 = ''-'' \<or> take 1 s0 = ''+'' then drop 1 s0 else s0);
          radix = (if hasHexPrefix s1 then 16 else 10);
          s2 = (if hasHexPrefix s1 then drop 2 s1 else s1)
      in case readDigits radix s2 None of
           None \<Rightarrow> None
         | Some v \<Rightarrow> Some (if negative then - int v else int v))"

text \<open>\<open>x.split(':')\<close>\<close>

fun split :: "char \<Rightarrow> string \<Rightarrow> string list" where
  "split sep [] = [[]]"
| "split sep (c # cs) =
     (if c = sep then [] # split sep cs
      else case split sep cs of
             [] \<Rightarrow> [[c]]
           | w # ws \<Rightarrow> (c # w) # ws)"

text \<open>An element of a destructured array: undefined beyond the end, and
  \<open>parseInt(undefined)\<close> is \<open>NaN\<close>.\<close>

definition element :: "string list \<Rightarrow> nat \<Rightarrow> string option" where
  "element xs i = (if i < length xs then Some (xs ! i) else None)"

definition parseIntOf :: "string option \<Rightarrow> int option" where
  "parseIntOf x = (case x of None \<Rightarrow> None | Some y \<Rightarrow> parseInt y)"

text \<open>\<open>n.toString().padStart(2, '0')\<close> for a non-negative integer.\<close>

fun toString :: "nat \<Rightarrow> string" where
  "toString n =
     (if n < 10 then [''0123456789'' ! n] else toString (n div 10) @ [''0123456789'' ! (n mod 10)])"

definition padStart :: "nat \<Rightarrow> char \<Rightarrow> string \<Rightarrow> string" where
  "padStart n c x = replicate (n - length x) c @ x"

text \<open>
  Dates are time values in milliseconds. The server's local time is taken at a fixed
  offset \<open>tz\<close> (milliseconds east of UTC), so \<open>d.setHours(h, m, s, ms)\<close> keeps the
  local day of \<open>d\<close> and replaces the time within the day. A time value beyond the
  range of \<open>Date\<close> is an invalid date (\<open>None\<close>), as is one built from \<open>NaN\<close>.
  The selected day itself is taken well inside that range.
\<close>

definition msPerDay :: int where
  "msPerDay = 86400000"

definition setHours :: "int \<Rightarrow> int \<Rightarrow> int \<Rightarrow> int \<Rightarrow> int \<Rightarrow> int \<Rightarrow> int" where
  "setHours tz t h m sec ms =
     ((t + tz) div msPerDay) * msPerDay + h * 3600000 + m * 60000 + sec * 1000 + ms - tz"

definition timeClip :: "int \<Rightarrow> int option" where
  "timeClip t = (if \<bar>t\<bar> \<le> 8640000000000000 then Some t else None)"

text \<open>\<open>const [h, m] = x.split(':'); d.setHours(parseInt(h), parseInt(m), 0, 0)\<close> on a
  copy \<open>d\<close> of the selected date.\<close>

definition timeOnDay :: "int \<Rightarrow> int \<Rightarrow> string \<Rightarrow> int option" where
  "timeOnDay tz selectedDate x =
     (let parts = split CHR '':'' x
      in case (parseIntOf (element parts 0), parseIntOf (element parts 1)) of
           (Some h, Some m) \<Rightarrow> timeClip (setHours tz selectedDate h m 0 0)
         | _ \<Rightarrow> None)"

subsection \<open>GET /appointments/availability: the handler\<close>

record availabilityQuery =
  q_practitionerId :: "string option"
  q_date :: "int option"

record slot =
  time :: string
  date :: int
  available :: bool

definition startHour :: nat where "startHour = 10"
definition endHour :: nat where "endHour = 18"
definition slotDuration :: nat where "slotDuration = 30"

text \<open>The query for the day's active appointments of the practitioner.\<close>

definition existingAppointments :: "store \<Rightarrow> objectId \<Rightarrow> int \<Rightarrow> int \<Rightarrow> appointment list" where
  "existingAppointments s pid startOfDay endOfDay =
     filter (\<lambda>a. practitioner a = pid \<and> startOfDay \<le> scheduledDate a \<and>
                  scheduledDate a \<le> endOfDay \<and> activeStatus (status a))
       (appointments s)"

text \<open>The callback of \<open>existingAppointments.some\<close>: \<open>slotStart < apptEnd && slotEnd >
  apptStart\<close>, false as soon as one of the two dates is invalid.\<close>

definition overlaps :: "int \<Rightarrow> int \<Rightarrow> int option \<Rightarrow> int option \<Rightarrow> bool" where
  "overlaps slotStart slotEnd apptStart apptEnd \<longleftrightarrow>
     (case apptEnd of None \<Rightarrow> False | Some e \<Rightarrow> slotStart < e) \<and>
     (case apptStart of None \<Rightarrow> False | Some b \<Rightarrow> slotEnd > b)"

definition slotStartOf :: "int \<Rightarrow> int \<Rightarrow> nat \<Rightarrow> nat \<Rightarrow> int" where
  "slotStartOf tz selectedDate hour minutes = setHours tz selectedDate (int hour) (int minutes) 0 0"

definition slotEndOf :: "int \<Rightarrow> int \<Rightarrow> nat \<Rightarrow> nat \<Rightarrow> int" where
  "slotEndOf tz selectedDate hour minutes =
     slotStartOf tz selectedDate hour minutes + int slotDuration * 60000"

definition hasConflict :: "int \<Rightarrow> int \<Rightarrow> appointment list \<Rightarrow> nat \<Rightarrow> nat \<Rightarrow> bool" where
  "hasConflict tz selectedDate existing hour minutes =
     list_ex (\<lambda>a. overlaps (slotStartOf tz selectedDate hour minutes)
                           (slotEndOf tz selectedDate hour minutes)
                           (timeOnDay tz selectedDate (startTime a))
                           (timeOnDay tz selectedDate (endTime a)))
       existing"

definition timeString :: "nat \<Rightarrow> nat \<Rightarrow> string" where
  "timeString hour minutes =
     padStart 2 CHR ''0'' (toString hour) @ '':'' @ padStart 2 CHR ''0'' (toString minutes)"

text \<open>\<open>selectedDate.toISOString().split('T')[0]\<close> is the UTC calendar day of the
  date; it is kept as the day number since the epoch.\<close>

definition isoDay :: "int \<Rightarrow> int" where
  "isoDay t = t div msPerDay"

text \<open>The two nested \<open>for\<close> loops; \<open>slots\<close> is the array \<open>availableSlots\<close>.\<close>

function minutesLoop :: "int \<Rightarrow> int \<Rightarrow> appointment list \<Rightarrow> nat \<Rightarrow> nat \<Rightarrow> slot list \<Rightarrow> slot list" where
  "minutesLoop tz selectedDate existing hour minutes slots =
     (if minutes < 60
      then minutesLoop tz selectedDate existing hour (minutes + slotDuration)
             (if \<not> hasConflict tz selectedDate existing hour minutes
              then slots @ [\<lparr>time = timeString hour minutes, date = isoDay selectedDate,
                              available = True\<rparr>]
              else slots)
      else slots)"
  by pat_completeness auto
termination
  by (relation "measure (\<lambda>(tz, selectedDate, existing, hour, minutes, slots). 60 - minutes)")
     (auto simp: slotDuration_def)

function hoursLoop :: "int \<Rightarrow> int \<Rightarrow> appointment list \<Rightarrow> nat \<Rightarrow> slot list \<Rightarrow> slot list" where
  "hoursLoop tz selectedDate existing hour slots =
     (if hour < endHour
      then hoursLoop tz selectedDate existing (hour + 1)
             (minutesLoop tz selectedDate existing hour 0 slots)
      else slots)"
  by pat_completeness auto
termination
  by (relation "measure (\<lambda>(tz, selectedDate, existing, hour, slots). endHour - hour)") auto

text \<open>The computation after the practitioner has been found. \<open>selectedDate\<close> is
  mutated by the two \<open>setHours\<close> calls and is the end of the day from then on.\<close>

definition computeAvailability :: "int \<Rightarrow> store \<Rightarrow> objectId \<Rightarrow> int \<Rightarrow> slot list" where
  "computeAvailability tz s pid d =
     (let startOfDay = setHours tz d 0 0 0 0;
          endOfDay = setHours tz startOfDay 23 59 59 999;
          selectedDate = endOfDay;
          existing = existingAppointments s pid startOfDay endOfDay
      in hoursLoop tz selectedDate existing startHour [])"

text \<open>\<open>!practitionerId\<close>: undefined and the empty string are falsy. The route is
  registered after \<open>GET /:id\<close> in the same router; what is modelled is the handler
  itself.\<close>

definition getAvailability :: "int \<Rightarrow> store \<Rightarrow> availabilityQuery \<Rightarrow> slot list response" where
  "getAvailability tz s q =
     (case (q_practitionerId q, q_date q) of
        (Some pid, Some d) \<Rightarrow>
          if pid = [] then Failure 400 ''Practitioner ID and date are required''
          else (case findPractitionerById s pid of
                  None \<Rightarrow> Failure 404 ''Practitioner not found''
                | Some pr \<Rightarrow> Success 200 [] (computeAvailability tz s pid d))
      | _ \<Rightarrow> Failure 400 ''Practitioner ID and date are required'')"

definition slotTimes :: "slot list response \<Rightarrow> string list" where
  "slotTimes r = (case r of Success c m slots \<Rightarrow> map time slots | Failure c m \<Rightarrow> [])"

declare minutesLoop.simps [simp del] hoursLoop.simps [simp del]

subsection \<open>Notions used in the statements\<close>

text \<open>
  The candidate slots of a day, the start of the local day of a date, and what it means
  for a candidate slot to overlap an active appointment of a practitioner on the
  selected day: the interval test \<open>slotStart < apptEnd \<and> slotEnd > apptStart\<close> on
  the times of the appointment read on that day.
\<close>

definition candidateGrid :: "(nat \<times> nat) list" where
  "candidateGrid = concat (map (\<lambda>hour. [(hour, 0), (hour, 30)]) [10..<18])"

definition slotIfFree :: "int \<Rightarrow> int \<Rightarrow> appointment list \<Rightarrow> nat \<Rightarrow> nat \<Rightarrow> slot list" where
  "slotIfFree tz selectedDate existing hour minutes =
     (if \<not> hasConflict tz selectedDate existing hour minutes
      then [\<lparr>time = timeString hour minutes, date = isoDay selectedDate, available = True\<rparr>]
      else [])"

definition localDayStart :: "int \<Rightarrow> int \<Rightarrow> int" where
  "localDayStart tz t = ((t + tz) div msPerDay) * msPerDay - tz"

definition sameLocalDay :: "int \<Rightarrow> int \<Rightarrow> int \<Rightarrow> bool" where
  "sameLocalDay tz t u \<longleftrightarrow> (t + tz) div msPerDay = (u + tz) div msPerDay"

definition gridSlotStart :: "int \<Rightarrow> int \<Rightarrow> nat \<Rightarrow> nat \<Rightarrow> int" where
  "gridSlotStart tz d hour minutes = localDayStart tz d + int hour * 3600000 + int minutes * 60000"

definition activeOverlap :: "int \<Rightarrow> store \<Rightarrow> objectId \<Rightarrow> int \<Rightarrow> nat \<Rightarrow> nat \<Rightarrow> bool" where
  "activeOverlap tz s pid d hour minutes \<longleftrightarrow>
     (\<exists>a \<in> set (appointments s).
        practitioner a = pid \<and> (status a = Scheduled \<or> status a = Confirmed) \<and>
        sameLocalDay tz (scheduledDate a) d \<and>
        (\<exists>apptStart apptEnd.
           timeOnDay tz d (startTime a) = Some apptStart \<and>
           timeOnDay tz d (endTime a) = Some apptEnd \<and>
           gridSlotStart tz d hour minutes < apptEnd \<and>
           gridSlotStart tz d hour minutes + 30 * 60000 > apptStart))"

subsection \<open>Scenarios\<close>

text \<open>One patient, one practitioner, no appointment; the date is 2024-06-01T00:00Z.\<close>

definition patId :: objectId where "patId = ''64b000000000000000000001''"
definition pracId :: objectId where "pracId = ''64b000000000000000000002''"
definition store0 :: store where
  "store0 = \<lparr>appointments = [], patients = [\<lparr>patient_id = patId, userId = ''u1''\<rparr>],
     practitioners = [\<lparr>practitioner_id = pracId\<rparr>], notifications = [], errorLog = []\<rparr>"
definition bookingA :: createBody where
  "bookingA = \<lparr>patientId = patId, practitionerId = pracId, req_therapyType = ''abhyanga'',
     req_scheduledDate = Some 1717200000000, req_startTime = ''10:00'', req_endTime = ''10:30'',
     req_duration = 30, req_cost = 500, req_notes = None, req_preSessionInstructions = None,
     req_postSessionInstructions = None\<rparr>"
definition env1 :: env where
  "env1 = \<lparr>now = 1717000000000, newId = ''a1'', notificationSaveFails = False, sendFails = False\<rparr>"
definition storeA :: store where "storeA = snd (createAppointment env1 store0 bookingA)"
definition queryA :: availabilityQuery where
  "queryA = \<lparr>q_practitionerId = Some pracId, q_date = Some 1717200000000\<rparr>"

definition exactStartCollision :: "store \<Rightarrow> objectId \<Rightarrow> int \<Rightarrow> string \<Rightarrow> bool" where
  "exactStartCollision s pid d st \<longleftrightarrow>
     (\<exists>a \<in> set (appointments s).
        practitioner a = pid \<and> scheduledDate a = d \<and> startTime a = st \<and>
        (status a = Scheduled \<or> status a = Confirmed))"

definition bookingB :: createBody where
  "bookingB = bookingA\<lparr>req_startTime := ''10:15'', req_endTime := ''10:45''\<rparr>"
definition env2 :: env where
  "env2 = \<lparr>now = 1717000001000, newId = ''a2'', notificationSaveFails = False, sendFails = False\<rparr>"
definition envNotificationFails :: env where
  "envNotificationFails = env1\<lparr>notificationSaveFails := True\<rparr>"
definition envSendFails :: env where
  "envSendFails = env1\<lparr>sendFails := True\<rparr>"

definition adminUser :: user where
  "adminUser = \<lparr>user_id = ''u9'', role = ''admin'', walletBalance = None\<rparr>"
definition patientUser :: user where
  "patientUser = \<lparr>user_id = ''u1'', role = ''patient'', walletBalance = None\<rparr>"
definition env3 :: env where
  "env3 = \<lparr>now = 1717000002000, newId = ''a3'', notificationSaveFails = False, sendFails = False\<rparr>"
definition storeAB :: store where
  "storeAB = snd (createAppointment env2 storeA bookingB)"
definition moveToTen :: updateBody where
  "moveToTen = \<lparr>upd_scheduledDate = None, upd_startTime = Some ''10:00'',
     upd_endTime = Some ''10:30'', upd_duration = None, upd_notes = None,
     upd_preSessionInstructions = None, upd_postSessionInstructions = None\<rparr>"
definition cancelBare :: statusBody where
  "cancelBare = \<lparr>new_status = ''cancelled'', new_cancellationReason = None\<rparr>"
definition confirmWithReason :: statusBody where
  "confirmWithReason = \<lparr>new_status = ''confirmed'', new_cancellationReason = Some ''patient requested''\<rparr>"
definition rescheduleBare :: statusBody where
  "rescheduleBare = \<lparr>new_status = ''scheduled'', new_cancellationReason = None\<rparr>"
definition storeCancelled :: store where
  "storeCancelled = snd (cancelAppointment env2 storeA patientUser ''a1'')"

definition bareCancelRequests :: "request list" where
  "bareCancelRequests = [CreateRequest env1 bookingA, StatusRequest env2 adminUser ''a1'' cancelBare]"
definition stampedConfirmRequests :: "request list" where
  "stampedConfirmRequests =
     [CreateRequest env1 bookingA, StatusRequest env2 adminUser ''a1'' confirmWithReason]"

definition metadataConsistent :: "appointment \<Rightarrow> bool" where
  "metadataConsistent a \<longleftrightarrow>
     (cancelledAt a \<noteq> None \<longleftrightarrow> cancelledBy a \<noteq> None) \<and>
     (cancellationReason a \<noteq> None \<longrightarrow> cancelledAt a \<noteq> None \<and> cancelledBy a \<noteq> None)"

section \<open>Wallet: the deduct operation\<close>

lemma findUserById_Some:
  "findUserById us i = Some u \<Longrightarrow> user_id u = i"
  by (auto simp: findUserById_def find_Some_iff)

lemma findUserById_saveUser:
  "findUserById us (user_id d) = Some u \<Longrightarrow> findUserById (saveUser d us) (user_id d) = Some d"
  by (induction us) (auto simp: findUserById_def split: if_splits)

text \<open>
  C10, as stated, at a concrete input: deducting one half from a balance of 100. The
  amount does not exceed the balance, yet the operation does not succeed: the
  validator \<open>isFloat({ min: 1 })\<close> rejects it and the balance stays 100.
\<close>

theorem walletDeduct_below_minimum_counterexample:
  "amount halfDeduct \<le> currentBalance walletUser \<and>
   walletDeduct [walletUser] walletUser halfDeduct = (Failure 400 ''Validation errors'', [walletUser])"
  by (simp add: walletDeduct_def deductValid_def halfDeduct_def walletUser_def currentBalance_def)

text \<open>Properties of the rounding.\<close>

lemma pow2_pos: "0 < pow2 k"
  by (simp add: pow2_def)

lemma halfEven_nonneg: "0 \<le> q \<Longrightarrow> 0 \<le> halfEven q"
  by (simp add: halfEven_def Let_def)

lemma halfEven_of_int: "halfEven (of_int m) = m"
  by (simp add: halfEven_def)

lemma roundPositive_nonneg: "0 \<le> x \<Longrightarrow> 0 \<le> roundPositive x"
  unfolding roundPositive_def
  by (intro mult_nonneg_nonneg) (simp_all add: halfEven_nonneg pow2_pos less_imp_le)

lemma roundDouble_nonneg: "0 \<le> x \<Longrightarrow> 0 \<le> roundDouble x"
  by (simp add: roundDouble_def roundPositive_nonneg)

lemma scaleUp_le: "scaleUp x k \<le> k"
proof (induction x k rule: scaleUp.induct)
  case (1 x k)
  show ?case
  proof (cases "x < 2 ^ 52 \<and> - 1074 < k")
    case True
    with 1 have "scaleUp (2 * x) (k - 1) \<le> k - 1" by simp
    with True show ?thesis by (subst scaleUp.simps) simp
  next
    case False
    then show ?thesis by (subst scaleUp.simps) auto
  qed
qed

lemma roundPositive_int:
  assumes "0 < n" "n < 2 ^ 53"
  shows "roundPositive (of_int n) = of_int n"
proof -
  let ?x = "of_int n :: rat"
  have "?x < 2 ^ 53"
    using assms(2) by (metis of_int_less_iff of_int_numeral of_int_power)
  then have e: "ulpExponent ?x = scaleUp ?x 0"
    by (simp add: ulpExponent_def)
  define j where "j = nat (- ulpExponent ?x)"
  have "ulpExponent ?x \<le> 0"
    unfolding e by (rule scaleUp_le)
  then have p: "pow2 (ulpExponent ?x) = 1 / 2 ^ j"
    by (cases "ulpExponent ?x = 0") (simp_all add: pow2_def j_def)
  have "?x / pow2 (ulpExponent ?x) = of_int (n * 2 ^ j)"
    by (simp add: p)
  then have "halfEven (?x / pow2 (ulpExponent ?x)) = n * 2 ^ j"
    by (simp only: halfEven_of_int)
  then show ?thesis
    by (simp add: roundPositive_def p)
qed

lemma roundDouble_int:
  assumes "0 \<le> n" "n < 2 ^ 53"
  shows "roundDouble (of_int n) = of_int n"
  using assms roundPositive_int[of n] by (cases "n = 0") (simp_all add: roundDouble_def)

lemma roundDouble_difference_exact:
  fixes x y :: rat
  assumes "x \<in> \<int>" "y \<in> \<int>" "0 \<le> y" "y \<le> x" "x < 2 ^ 53"
  shows "roundDouble (x - y) = x - y"
proof -
  from assms(1,2) obtain m n where x: "x = of_int m" and y: "y = of_int n"
    by (auto elim!: Ints_cases)
  have n: "0 \<le> n" "n \<le> m"
    using assms(3,4) unfolding x y by simp_all
  have "rat_of_int m < rat_of_int (2 ^ 53)"
    using assms(5) unfolding x by simp
  then have "m < 2 ^ 53"
    by (simp only: of_int_less_iff)
  with n have "0 \<le> m - n" "m - n < 2 ^ 53"
    by simp_all
  then have "roundDouble (of_int (m - n)) = of_int (m - n)"
    by (rule roundDouble_int)
  then show ?thesis
    by (simp add: x y)
qed

lemma roundDouble_example:
  "roundDouble (3521955646092083 / 35184372088832 - 7656119366529843 / 4503599627370496)
   = 6924284427082137 / 70368744177664"
proof -
  have f: "\<lfloor>443154203333256781 / 64 :: rat\<rfloor> = 6924284427082137"
    by (rule floor_unique) simp_all
  show ?thesis
    by (simp add: roundDouble_def roundPositive_def ulpExponent_def pow2_def halfEven_def
        scaleUp.simps Let_def f)
qed

text \<open>
  C10, amended: a request that fails validation (amount below 1, or empty reason) is
  rejected and changes nothing. For every stored user and every request that passes
  validation: if the amount exceeds the current balance the operation fails with
  'Insufficient wallet balance' and the collection is unchanged; otherwise it succeeds,
  and the new balance (returned and stored) is the difference of the old balance and
  the amount as doubles subtract, that is, rounded to the nearest double; it is not
  negative, and it equals the old balance minus the amount whenever both are integers
  and the balance is below \<open>2 ^ 53\<close>.
\<close>

theorem walletDeduct_guarded:
  "(\<not> deductValid b \<longrightarrow> walletDeduct us reqUser b = (Failure 400 ''Validation errors'', us)) \<and>
   (deductValid b \<and> findUserById us (user_id reqUser) = Some u \<and> currentBalance u < amount b \<longrightarrow>
      walletDeduct us reqUser b = (Failure 400 ''Insufficient wallet balance'', us)) \<and>
   (deductValid b \<and> findUserById us (user_id reqUser) = Some u \<and> amount b \<le> currentBalance u \<longrightarrow>
      fst (walletDeduct us reqUser b) =
        Success 200 ''Amount deducted successfully''
          \<lparr>newBalance = roundDouble (currentBalance u - amount b), amountDeducted = amount b,
           deductReason = reason b\<rparr> \<and>
      findUserById (snd (walletDeduct us reqUser b)) (user_id reqUser) =
        Some (u\<lparr>walletBalance := Some (roundDouble (currentBalance u - amount b))\<rparr>) \<and>
      0 \<le> roundDouble (currentBalance u - amount b) \<and>
      (currentBalance u \<in> \<int> \<and> amount b \<in> \<int> \<and> currentBalance u < 2 ^ 53 \<longrightarrow>
         roundDouble (currentBalance u - amount b) = currentBalance u - amount b))"
proof -
  have p1: "\<not> deductValid b \<longrightarrow> walletDeduct us reqUser b = (Failure 400 ''Validation errors'', us)"
    by (simp add: walletDeduct_def)
  have p2: "deductValid b \<and> findUserById us (user_id reqUser) = Some u \<and> currentBalance u < amount b \<longrightarrow>
      walletDeduct us reqUser b = (Failure 400 ''Insufficient wallet balance'', us)"
    by (simp add: walletDeduct_def)
  have p3: "deductValid b \<and> findUserById us (user_id reqUser) = Some u \<and> amount b \<le> currentBalance u \<longrightarrow>
      fst (walletDeduct us reqUser b) =
        Success 200 ''Amount deducted successfully''
          \<lparr>newBalance = roundDouble (currentBalance u - amount b), amountDeducted = amount b,
           deductReason = reason b\<rparr> \<and>
      findUserById (snd (walletDeduct us reqUser b)) (user_id reqUser) =
        Some (u\<lparr>walletBalance := Some (roundDouble (currentBalance u - amount b))\<rparr>) \<and>
      0 \<le> roundDouble (currentBalance u - amount b) \<and>
      (currentBalance u \<in> \<int> \<and> amount b \<in> \<int> \<and> currentBalance u < 2 ^ 53 \<longrightarrow>
         roundDouble (currentBalance u - amount b) = currentBalance u - amount b)"
  proof (rule impI)
    assume h: "deductValid b \<and> findUserById us (user_id reqUser) = Some u \<and> amount b \<le> currentBalance u"
    let ?n = "roundDouble (currentBalance u - amount b)"
    let ?u' = "u\<lparr>walletBalance := Some ?n\<rparr>"
    have id: "user_id u = user_id reqUser"
      using h by (auto dest: findUserById_Some)
    have r: "walletDeduct us reqUser b =
       (Success 200 ''Amount deducted successfully''
          \<lparr>newBalance = ?n, amountDeducted = amount b, deductReason = reason b\<rparr>,
        saveUser ?u' us)"
      using h by (simp add: walletDeduct_def Let_def subtract_def)
    have "findUserById (saveUser ?u' us) (user_id ?u') = Some ?u'"
      using h id by (intro findUserById_saveUser[where u = u]) simp
    then have f: "findUserById (snd (walletDeduct us reqUser b)) (user_id reqUser) = Some ?u'"
      unfolding r using id by simp
    have n: "0 \<le> ?n"
      using h by (intro roundDouble_nonneg) simp
    have a: "0 \<le> amount b"
      using h by (simp add: deductValid_def)
    have e: "currentBalance u \<in> \<int> \<and> amount b \<in> \<int> \<and> currentBalance u < 2 ^ 53 \<longrightarrow>
         ?n = currentBalance u - amount b"
      using h a by (auto intro: roundDouble_difference_exact)
    show "fst (walletDeduct us reqUser b) =
        Success 200 ''Amount deducted successfully''
          \<lparr>newBalance = ?n, amountDeducted = amount b, deductReason = reason b\<rparr> \<and>
      findUserById (snd (walletDeduct us reqUser b)) (user_id reqUser) = Some ?u' \<and>
      0 \<le> ?n \<and>
      (currentBalance u \<in> \<int> \<and> amount b \<in> \<int> \<and> currentBalance u < 2 ^ 53 \<longrightarrow>
         ?n = currentBalance u - amount b)"
      using r f n e by simp
  qed
  show ?thesis
    by (rule conjI[OF p1 conjI[OF p2 p3]])
qed

text \<open>
  Deducting 40 from 100 leaves 60. Deducting 1.7 from 100.1 leaves the double
  98.39999999999999, not the exact difference of the two doubles. Deducting one half
  is rejected by validation.
\<close>

theorem walletDeduct_guarded_witness:
  "deductValid fortyDeduct \<and> findUserById [walletUser] (user_id walletUser) = Some walletUser \<and>
   amount fortyDeduct \<le> currentBalance walletUser \<and>
   fst (walletDeduct [walletUser] walletUser fortyDeduct) =
     Success 200 ''Amount deducted successfully''
       \<lparr>newBalance = 60, amountDeducted = 40, deductReason = ''fee''\<rparr> \<and>
   deductValid fractionDeduct \<and>
   findUserById [fractionUser] (user_id fractionUser) = Some fractionUser \<and>
   amount fractionDeduct \<le> currentBalance fractionUser \<and>
   fst (walletDeduct [fractionUser] fractionUser fractionDeduct) =
     Success 200 ''Amount deducted successfully''
       \<lparr>newBalance = 6924284427082137 / 70368744177664,
        amountDeducted = 7656119366529843 / 4503599627370496, deductReason = ''fee''\<rparr> \<and>
   currentBalance fractionUser - amount fractionDeduct \<noteq> 6924284427082137 / 70368744177664 \<and>
   \<not> deductValid halfDeduct \<and>
   walletDeduct [walletUser] walletUser halfDeduct = (Failure 400 ''Validation errors'', [walletUser])"
proof -
  have h1: "deductValid fortyDeduct \<and> findUserById [walletUser] (user_id walletUser) = Some walletUser \<and>
     amount fortyDeduct \<le> currentBalance walletUser"
    by (simp add: deductValid_def fortyDeduct_def walletUser_def findUserById_def
        currentBalance_def)
  have i1: "currentBalance walletUser \<in> \<int> \<and> amount fortyDeduct \<in> \<int> \<and>
     currentBalance walletUser < 2 ^ 53"
    by (simp add: fortyDeduct_def walletUser_def currentBalance_def)
  have h2: "deductValid fractionDeduct \<and>
     findUserById [fractionUser] (user_id fractionUser) = Some fractionUser \<and>
     amount fractionDeduct \<le> currentBalance fractionUser"
    by (simp add: deductValid_def fractionDeduct_def fractionUser_def findUserById_def
        currentBalance_def)
  have h3: "\<not> deductValid halfDeduct"
    by (simp add: deductValid_def halfDeduct_def)
  have d: "currentBalance fractionUser - amount fractionDeduct =
     3521955646092083 / 35184372088832 - 7656119366529843 / 4503599627370496"
    by (simp add: fractionDeduct_def fractionUser_def currentBalance_def)
  have x: "currentBalance fractionUser - amount fractionDeduct \<noteq> 6924284427082137 / 70368744177664"
    unfolding d by simp
  have r1: "fst (walletDeduct [walletUser] walletUser fortyDeduct) =
     Success 200 ''Amount deducted successfully''
       \<lparr>newBalance = 60, amountDeducted = 40, deductReason = ''fee''\<rparr>"
    using walletDeduct_guarded [of fortyDeduct "[walletUser]" walletUser walletUser] h1 i1
    by (simp add: fortyDeduct_def walletUser_def currentBalance_def)
  have r2: "fst (walletDeduct [fractionUser] fractionUser fractionDeduct) =
     Success 200 ''Amount deducted successfully''
       \<lparr>newBalance = 6924284427082137 / 70368744177664,
        amountDeducted = 7656119366529843 / 4503599627370496, deductReason = ''fee''\<rparr>"
  proof -
    have rd: "roundDouble (currentBalance fractionUser - amount fractionDeduct) =
       6924284427082137 / 70368744177664"
      unfolding d by (rule roundDouble_example)
    have am: "amount fractionDeduct = 7656119366529843 / 4503599627370496"
      "reason fractionDeduct = ''fee''"
      by (simp_all add: fractionDeduct_def)
    have "fst (walletDeduct [fractionUser] fractionUser fractionDeduct) =
       Success 200 ''Amount deducted successfully''
         \<lparr>newBalance = roundDouble (currentBalance fractionUser - amount fractionDeduct),
          amountDeducted = amount fractionDeduct, deductReason = reason fractionDeduct\<rparr>"
      using walletDeduct_guarded [of fractionDeduct "[fractionUser]" fractionUser fractionUser,
          THEN conjunct2, THEN conjunct2, THEN mp, OF h2]
      by (rule conjunct1)
    then have "fst (walletDeduct [fractionUser] fractionUser fractionDeduct) =
       Success 200 ''Amount deducted successfully''
         \<lparr>newBalance = 6924284427082137 / 70368744177664,
          amountDeducted = amount fractionDeduct, deductReason = reason fractionDeduct\<rparr>"
      by (simp only: rd)
    then show ?thesis
      by (simp only: am)
  qed
  have r3: "walletDeduct [walletUser] walletUser halfDeduct =
     (Failure 400 ''Validation errors'', [walletUser])"
    using walletDeduct_guarded [of halfDeduct "[walletUser]" walletUser walletUser] h3
    by simp
  show ?thesis
    using h1 h2 h3 x r1 r2 r3 by simp
qed

section \<open>Availability\<close>

text \<open>The two loops visit the candidate grid in order and keep the slots without a
  conflict.\<close>

lemma minutesLoop_from_0:
  "minutesLoop tz sel ex h 0 slots = slots @ slotIfFree tz sel ex h 0 @ slotIfFree tz sel ex h 30"
  apply (subst minutesLoop.simps)
  apply (subst minutesLoop.simps)
  apply (subst minutesLoop.simps)
  apply (simp add: slotDuration_def slotIfFree_def)
  done

lemma hoursLoop_concat:
  "hoursLoop tz sel ex hour slots =
     slots @ concat (map (\<lambda>h. slotIfFree tz sel ex h 0 @ slotIfFree tz sel ex h 30) [hour..<endHour])"
proof (induction tz sel ex hour slots rule: hoursLoop.induct)
  case (1 tz sel ex hour slots)
  show ?case
  proof (cases "hour < endHour")
    case True
    then have "[hour..<endHour] = hour # [hour + 1..<endHour]"
      by (simp add: upt_conv_Cons)
    with True 1 show ?thesis
      by (subst hoursLoop.simps) (simp add: minutesLoop_from_0)
  next
    case False
    then show ?thesis
      by (subst hoursLoop.simps) simp
  qed
qed

lemma candidateGrid_eq:
  "candidateGrid = [(10,0),(10,30),(11,0),(11,30),(12,0),(12,30),(13,0),(13,30),
     (14,0),(14,30),(15,0),(15,30),(16,0),(16,30),(17,0),(17,30)]"
  by (simp add: candidateGrid_def upt_conv_Cons)

lemma hoursLoop_grid:
  "hoursLoop tz sel ex startHour [] =
     concat (map (\<lambda>(h, m). slotIfFree tz sel ex h m) candidateGrid)"
  by (simp add: hoursLoop_concat candidateGrid_eq startHour_def endHour_def upt_conv_Cons)

lemma concat_slotIfFree:
  "concat (map (\<lambda>(h, m). slotIfFree tz sel ex h m) g) =
     map (\<lambda>(h, m). \<lparr>time = timeString h m, date = isoDay sel, available = True\<rparr>)
       (filter (\<lambda>(h, m). \<not> hasConflict tz sel ex h m) g)"
  by (induction g) (auto simp: slotIfFree_def)

lemma gridTimes: "map (\<lambda>(h, m). timeString h m) candidateGrid =
  [''10:00'', ''10:30'', ''11:00'', ''11:30'', ''12:00'', ''12:30'', ''13:00'',
  ''13:30'', ''14:00'', ''14:30'', ''15:00'', ''15:30'', ''16:00'',
  ''16:30'', ''17:00'', ''17:30'']"
  by (simp add: candidateGrid_eq timeString_def padStart_def)

lemma timeString_inj: "inj_on (\<lambda>(h, m). timeString h m) (set candidateGrid)"
proof -
  have "distinct (map (\<lambda>(h, m). timeString h m) candidateGrid)"
    unfolding gridTimes by simp
  then show ?thesis
    by (simp add: distinct_map)
qed

lemma endOfDay_day:
  "(setHours tz (setHours tz d 0 0 0 0) 23 59 59 999 + tz) div msPerDay = (d + tz) div msPerDay"
  by (simp add: setHours_def msPerDay_def)

lemma setHours_same_day:
  "(t + tz) div msPerDay = (u + tz) div msPerDay \<Longrightarrow> setHours tz t h m sec ms = setHours tz u h m sec ms"
  by (simp add: setHours_def)

lemma timeOnDay_same_day:
  assumes "(t + tz) div msPerDay = (u + tz) div msPerDay"
  shows "timeOnDay tz t x = timeOnDay tz u x"
proof -
  have "setHours tz t h m 0 0 = setHours tz u h m 0 0" for h m
    using assms by (rule setHours_same_day)
  then show ?thesis
    by (simp add: timeOnDay_def Let_def split: option.splits)
qed

lemma div_eq_iff_int: "0 < D \<Longrightarrow> (y div D = k) \<longleftrightarrow> (k * D \<le> y \<and> y < k * D + D)" for y :: int
proof
  assume D: "0 < D" and "y div D = k"
  then have k: "k = y div D" by simp
  have "y div D * D + y mod D = y" by simp
  moreover have "0 \<le> y mod D" "y mod D < D" using D by simp_all
  ultimately show "k * D \<le> y \<and> y < k * D + D" unfolding k by linarith
next
  assume D: "0 < D" and b: "k * D \<le> y \<and> y < k * D + D"
  have "y = (y - k * D) + k * D" by simp
  then have "y div D = ((y - k * D) + k * D) div D" by simp
  also have "\<dots> = k + (y - k * D) div D" using D by (simp only: div_mult_self1) 
  also have "(y - k * D) div D = 0" using b D by (intro div_pos_pos_trivial) auto
  finally show "y div D = k" by simp
qed

lemma day_range:
  "setHours tz d 0 0 0 0 \<le> x \<and> x \<le> setHours tz (setHours tz d 0 0 0 0) 23 59 59 999
     \<longleftrightarrow> sameLocalDay tz x d"
proof -
  define k where "k = (d + tz) div msPerDay"
  have s: "setHours tz d 0 0 0 0 = k * msPerDay - tz"
    by (simp add: setHours_def k_def)
  have e: "setHours tz (k * msPerDay - tz) 23 59 59 999 = k * msPerDay + 86399999 - tz"
    by (simp add: setHours_def msPerDay_def)
  have "sameLocalDay tz x d \<longleftrightarrow> (x + tz) div msPerDay = k"
    by (simp add: sameLocalDay_def k_def)
  also have "\<dots> \<longleftrightarrow> k * msPerDay \<le> x + tz \<and> x + tz < k * msPerDay + msPerDay"
    by (rule div_eq_iff_int) (simp add: msPerDay_def)
  also have "\<dots> \<longleftrightarrow> k * msPerDay - tz \<le> x \<and> x \<le> k * msPerDay + 86399999 - tz"
    by (auto simp: msPerDay_def)
  finally show ?thesis
    unfolding s e by simp
qed

lemma existing_set:
  "a \<in> set (existingAppointments s pid (setHours tz d 0 0 0 0)
              (setHours tz (setHours tz d 0 0 0 0) 23 59 59 999)) \<longleftrightarrow>
   a \<in> set (appointments s) \<and> practitioner a = pid \<and>
   (status a = Scheduled \<or> status a = Confirmed) \<and> sameLocalDay tz (scheduledDate a) d"
  using day_range[of tz d "scheduledDate a"]
  by (auto simp: existingAppointments_def activeStatus_def)

lemma slotStartOf_endOfDay:
  "slotStartOf tz (setHours tz (setHours tz d 0 0 0 0) 23 59 59 999) hour minutes =
     gridSlotStart tz d hour minutes"
  using endOfDay_day[of tz d]
  by (simp add: slotStartOf_def gridSlotStart_def localDayStart_def setHours_def)

lemma hasConflict_activeOverlap:
  "hasConflict tz (setHours tz (setHours tz d 0 0 0 0) 23 59 59 999)
     (existingAppointments s pid (setHours tz d 0 0 0 0)
        (setHours tz (setHours tz d 0 0 0 0) 23 59 59 999)) hour minutes
   \<longleftrightarrow> activeOverlap tz s pid d hour minutes"
proof -
  let ?e = "setHours tz (setHours tz d 0 0 0 0) 23 59 59 999"
  have t: "timeOnDay tz ?e x = timeOnDay tz d x" for x
    by (rule timeOnDay_same_day) (rule endOfDay_day)
  show ?thesis
    unfolding hasConflict_def list_ex_iff activeOverlap_def Bex_def
      slotEndOf_def slotStartOf_endOfDay t overlaps_def slotDuration_def existing_set
    by (auto split: option.splits; blast)
qed

lemma computeAvailability_filter:
  "computeAvailability tz s pid d =
     map (\<lambda>(h, m). \<lparr>time = timeString h m,
                     date = isoDay (setHours tz (setHours tz d 0 0 0 0) 23 59 59 999),
                     available = True\<rparr>)
       (filter (\<lambda>(h, m). \<not> activeOverlap tz s pid d h m) candidateGrid)"
  by (simp add: computeAvailability_def Let_def hoursLoop_grid concat_slotIfFree
      hasConflict_activeOverlap)


lemma slotTimes_getAvailability:
  assumes "q_practitionerId q = Some pid" "pid \<noteq> []" "q_date q = Some d"
    "findPractitionerById s pid = Some pr"
  shows "getAvailability tz s q = Success 200 [] (computeAvailability tz s pid d)"
  using assms by (simp add: getAvailability_def)

lemma times_computeAvailability:
  "map time (computeAvailability tz s pid d) =
     map (\<lambda>(h, m). timeString h m) (filter (\<lambda>(h, m). \<not> activeOverlap tz s pid d h m) candidateGrid)"
  by (simp add: computeAvailability_filter case_prod_unfold comp_def)

text \<open>
  C2: for every candidate slot of the grid, the availability computation returns the
  slot (by its time string) if and only if the slot's interval overlaps no appointment
  with status scheduled or confirmed of that practitioner on that day, where overlap is
  the interval test \<open>slotStart < apptEnd \<and> slotEnd > apptStart\<close>.
\<close>

theorem availability_iff_no_overlap:
  assumes "q_practitionerId q = Some pid" "pid \<noteq> []" "q_date q = Some d"
    "findPractitionerById s pid = Some pr" "(hour, minutes) \<in> set candidateGrid"
  shows "timeString hour minutes \<in> set (slotTimes (getAvailability tz s q)) \<longleftrightarrow>
         \<not> activeOverlap tz s pid d hour minutes"
proof -
  let ?f = "\<lambda>(h, m). timeString h m"
  let ?free = "\<lambda>(h, m). \<not> activeOverlap tz s pid d h m"
  have "set (slotTimes (getAvailability tz s q)) = ?f ` {g \<in> set candidateGrid. ?free g}"
    using assms(1-4)
    by (simp add: slotTimes_getAvailability slotTimes_def times_computeAvailability)
  moreover have "?f (hour, minutes) \<in> ?f ` {g \<in> set candidateGrid. ?free g} \<longleftrightarrow>
                 (hour, minutes) \<in> {g \<in> set candidateGrid. ?free g}"
    using timeString_inj assms(5)
    by (intro inj_on_image_mem_iff[where B = "set candidateGrid"]) auto
  ultimately show ?thesis
    using assms(5) by simp
qed

text \<open>After the booking of 10:00--10:30, the slot 10:00 is not returned and the slot
  10:30 is.\<close>

theorem availability_iff_no_overlap_witness:
  "q_practitionerId queryA = Some pracId \<and> pracId \<noteq> [] \<and> q_date queryA = Some 1717200000000 \<and>
   findPractitionerById storeA pracId = Some \<lparr>practitioner_id = pracId\<rparr> \<and>
   (10, 0) \<in> set candidateGrid \<and> (10, 30) \<in> set candidateGrid \<and>
   activeOverlap 0 storeA pracId 1717200000000 10 0 \<and>
   \<not> activeOverlap 0 storeA pracId 1717200000000 10 30 \<and>
   ''10:00'' \<notin> set (slotTimes (getAvailability 0 storeA queryA)) \<and>
   ''10:30'' \<in> set (slotTimes (getAvailability 0 storeA queryA))"
proof -
  have h: "q_practitionerId queryA = Some pracId" "pracId \<noteq> []" "q_date queryA = Some 1717200000000"
    "findPractitionerById storeA pracId = Some \<lparr>practitioner_id = pracId\<rparr>"
    by (simp_all add: queryA_def pracId_def storeA_def createAppointment_def store0_def bookingA_def
        findPractitionerById_def createValid_def isMongoId_def isHexDigit_def therapyTypes_def patId_def
        findPatientById_def findConflict_def env1_def Let_def)
  have g: "(10, 0) \<in> set candidateGrid" "(10, 30) \<in> set candidateGrid"
    by (simp_all add: candidateGrid_eq)
  have a: "appointments storeA = [newAppointment env1 bookingA 1717200000000]"
    by (simp add: queryA_def pracId_def storeA_def createAppointment_def store0_def bookingA_def
        findPractitionerById_def createValid_def isMongoId_def isHexDigit_def therapyTypes_def patId_def
        findPatientById_def findConflict_def env1_def Let_def)
  have o: "activeOverlap 0 storeA pracId 1717200000000 10 0"
    "\<not> activeOverlap 0 storeA pracId 1717200000000 10 30"
    by (simp_all add: activeOverlap_def a newAppointment_def bookingA_def schemaDefaultStatus_def
        sameLocalDay_def timeOnDay_def element_def parseIntOf_def parseInt_def isWhiteSpace_def
        hasHexPrefix_def digitValue_def setHours_def timeClip_def msPerDay_def gridSlotStart_def
        localDayStart_def)
  show ?thesis
    using availability_iff_no_overlap[OF h g(1), of 0] availability_iff_no_overlap[OF h g(2), of 0]
      h g o
    by (simp add: timeString_def padStart_def)
qed

section \<open>Availability: what the returned list contains\<close>

text \<open>
  C6, as stated, at a concrete input: after the booking of 10:00--10:30 the handler
  returns 15 slots, not 16; the slot 10:00 is left out rather than tagged unavailable.
\<close>

theorem availability_omits_unavailable_counterexample:
  "slotTimes (getAvailability 0 storeA queryA) =
     [''10:30'', ''11:00'', ''11:30'', ''12:00'', ''12:30'', ''13:00'', ''13:30'', ''14:00'',
      ''14:30'', ''15:00'', ''15:30'', ''16:00'', ''16:30'', ''17:00'', ''17:30''] \<and>
   length (slotTimes (getAvailability 0 storeA queryA)) = 15"
  by code_simp

lemma storeA_eq:
  "storeA = \<lparr>appointments = [newAppointment env1 bookingA 1717200000000],
     patients = [\<lparr>patient_id = patId, userId = ''u1''\<rparr>],
     practitioners = [\<lparr>practitioner_id = pracId\<rparr>],
     notifications = [confirmationNotification \<lparr>patient_id = patId, userId = ''u1''\<rparr>
                        (newAppointment env1 bookingA 1717200000000)],
     errorLog = []\<rparr>"
  by (simp add: pracId_def storeA_def createAppointment_def store0_def bookingA_def
        findPractitionerById_def createValid_def isMongoId_def isHexDigit_def therapyTypes_def patId_def
        findPatientById_def findConflict_def env1_def Let_def)

text \<open>
  C6, amended: the availability computation returns exactly the candidate slots of the
  fixed grid (10:00 to 18:00 in steps of 30 minutes) that overlap no active appointment
  of the practitioner on the selected day, in the order of the grid: a subsequence of
  the 16 grid times in chronological order, so at most 16 slots, each tagged
  \<open>available = True\<close>. A grid slot is in the list if it overlaps none and is left
  out of the list if it overlaps one. When the practitioner has no active appointment
  on that day, all 16 slots are returned.
\<close>

theorem availability_lists_free_slots:
  assumes "q_practitionerId q = Some pid" "pid \<noteq> []" "q_date q = Some d"
    "findPractitionerById s pid = Some pr"
  shows "\<exists>slots. getAvailability tz s q = Success 200 [] slots \<and>
     map time slots =
       map (\<lambda>(h, m). timeString h m)
         (filter (\<lambda>(h, m). \<not> activeOverlap tz s pid d h m) candidateGrid) \<and>
     subseq (map time slots)
       [''10:00'', ''10:30'', ''11:00'', ''11:30'', ''12:00'', ''12:30'', ''13:00'', ''13:30'',
        ''14:00'', ''14:30'', ''15:00'', ''15:30'', ''16:00'', ''16:30'', ''17:00'', ''17:30''] \<and>
     length slots \<le> 16 \<and>
     list_all available slots \<and>
     (\<forall>g \<in> set candidateGrid. activeOverlap tz s pid d (fst g) (snd g) \<longrightarrow>
        timeString (fst g) (snd g) \<notin> set (map time slots)) \<and>
     (\<forall>g \<in> set candidateGrid. \<not> activeOverlap tz s pid d (fst g) (snd g) \<longrightarrow>
        timeString (fst g) (snd g) \<in> set (map time slots)) \<and>
     ((\<forall>a \<in> set (appointments s).
          \<not> (practitioner a = pid \<and> activeStatus (status a) \<and>
             sameLocalDay tz (scheduledDate a) d)) \<longrightarrow>
        map time slots =
          [''10:00'', ''10:30'', ''11:00'', ''11:30'', ''12:00'', ''12:30'', ''13:00'', ''13:30'',
           ''14:00'', ''14:30'', ''15:00'', ''15:30'', ''16:00'', ''16:30'', ''17:00'', ''17:30''])"
proof -
  let ?f = "\<lambda>(h, m). timeString h m"
  let ?free = "\<lambda>(h, m). \<not> activeOverlap tz s pid d h m"
  let ?slots = "computeAvailability tz s pid d"
  have r: "getAvailability tz s q = Success 200 [] ?slots"
    using assms by (rule slotTimes_getAvailability)
  have t: "map time ?slots = map ?f (filter ?free candidateGrid)"
    by (rule times_computeAvailability)
  have sub: "subseq (map time ?slots) (map ?f candidateGrid)"
    unfolding t by (intro subseq_map subseq_filter_left)
  have len: "length ?slots \<le> 16"
    using list_emb_length[OF sub] by (simp add: gridTimes)
  have av: "list_all available ?slots"
    by (simp add: computeAvailability_filter list_all_iff case_prod_unfold)
  have mem: "timeString (fst g) (snd g) \<in> set (map time ?slots) \<longleftrightarrow>
      \<not> activeOverlap tz s pid d (fst g) (snd g)" if g: "g \<in> set candidateGrid" for g
  proof -
    have "?f g \<in> ?f ` {x \<in> set candidateGrid. ?free x} \<longleftrightarrow> g \<in> {x \<in> set candidateGrid. ?free x}"
      using timeString_inj g
      by (intro inj_on_image_mem_iff[where B = "set candidateGrid"]) auto
    then show ?thesis
      using g by (simp add: t case_prod_unfold)
  qed
  have full: "map time ?slots = map ?f candidateGrid"
    if "\<forall>a \<in> set (appointments s).
          \<not> (practitioner a = pid \<and> activeStatus (status a) \<and>
             sameLocalDay tz (scheduledDate a) d)"
  proof -
    have "\<not> activeOverlap tz s pid d h m" for h m
      using that by (auto simp: activeOverlap_def activeStatus_def)
    then show ?thesis
      by (simp add: t)
  qed
  show ?thesis
    using r t sub len av mem full by (intro exI[of _ ?slots]) (simp add: gridTimes)
qed

text \<open>After the booking of 10:00--10:30, the practitioner's list for the day is the
  15 grid times from 10:30 on.\<close>

lemma storeA_free:
  "filter (\<lambda>(h, m). \<not> activeOverlap 0 storeA pracId 1717200000000 h m) candidateGrid =
     [(10,30),(11,0),(11,30),(12,0),(12,30),(13,0),(13,30),
      (14,0),(14,30),(15,0),(15,30),(16,0),(16,30),(17,0),(17,30)]"
  by (simp add: candidateGrid_eq activeOverlap_def storeA_eq newAppointment_def bookingA_def
        schemaDefaultStatus_def sameLocalDay_def timeOnDay_def element_def parseIntOf_def
        parseInt_def isWhiteSpace_def hasHexPrefix_def digitValue_def setHours_def timeClip_def
        msPerDay_def gridSlotStart_def localDayStart_def)

theorem availability_lists_free_slots_witness:
  "q_practitionerId queryA = Some pracId \<and> pracId \<noteq> [] \<and> q_date queryA = Some 1717200000000 \<and>
   findPractitionerById storeA pracId = Some \<lparr>practitioner_id = pracId\<rparr> \<and>
   (\<exists>slots. getAvailability 0 storeA queryA = Success 200 [] slots \<and>
      map time slots =
        [''10:30'', ''11:00'', ''11:30'', ''12:00'', ''12:30'', ''13:00'', ''13:30'', ''14:00'',
         ''14:30'', ''15:00'', ''15:30'', ''16:00'', ''16:30'', ''17:00'', ''17:30''] \<and>
      length slots \<le> 16 \<and> list_all available slots)"
proof -
  have h: "q_practitionerId queryA = Some pracId" "pracId \<noteq> []" "q_date queryA = Some 1717200000000"
    "findPractitionerById storeA pracId = Some \<lparr>practitioner_id = pracId\<rparr>"
    by (simp_all add: queryA_def storeA_eq findPractitionerById_def) (simp add: pracId_def)
  from availability_lists_free_slots[OF h, of 0] obtain slots where
    s: "getAvailability 0 storeA queryA = Success 200 [] slots"
    "map time slots = map (\<lambda>(h, m). timeString h m)
         (filter (\<lambda>(h, m). \<not> activeOverlap 0 storeA pracId 1717200000000 h m) candidateGrid)"
    "length slots \<le> 16" "list_all available slots"
    by blast
  have "map time slots =
        [''10:30'', ''11:00'', ''11:30'', ''12:00'', ''12:30'', ''13:00'', ''13:30'', ''14:00'',
         ''14:30'', ''15:00'', ''15:30'', ''16:00'', ''16:30'', ''17:00'', ''17:30'']"
    unfolding s(2) storeA_free by (simp add: timeString_def padStart_def)
  then have "\<exists>slots. getAvailability 0 storeA queryA = Success 200 [] slots \<and>
      map time slots =
        [''10:30'', ''11:00'', ''11:30'', ''12:00'', ''12:30'', ''13:00'', ''13:30'', ''14:00'',
         ''14:30'', ''15:00'', ''15:30'', ''16:00'', ''16:30'', ''17:00'', ''17:30''] \<and>
      length slots \<le> 16 \<and> list_all available slots"
    using s(1,3,4) by (intro exI[of _ slots] conjI)
  with h show ?thesis
    by (intro conjI)
qed

section \<open>Booking: the conflict guard\<close>

lemma findConflict_iff:
  "findConflict s pid d st \<noteq> None \<longleftrightarrow> exactStartCollision s pid d st"
  by (auto simp: findConflict_def exactStartCollision_def find_None_iff activeStatus_def)

lemma createAppointment_reaches_guard:
  assumes "createValid b" "req_scheduledDate b = Some d"
    "findPatientById s (patientId b) = Some p" "findPractitionerById s (practitionerId b) = Some pr"
  shows "createAppointment e s b =
     (case findConflict s (practitionerId b) d (req_startTime b) of
        Some conflict \<Rightarrow> (Failure 400 ''Time slot is already booked'', s)
      | None \<Rightarrow>
          let a = newAppointment e b d;
              s1 = s\<lparr>appointments := appointments s @ [a]\<rparr>
          in if notificationSaveFails e
             then (Failure 500 ''Server error creating appointment'',
                   logError ''Create appointment error:'' s1)
             else
               let s2 = s1\<lparr>notifications := notifications s1 @ [confirmationNotification p a]\<rparr>;
                   s3 = (if sendFails e
                         then logError ''Failed to send appointment confirmation:'' s2
                         else s2)
               in (Success 201 ''Appointment created successfully'' a, s3))"
  using assms by (simp add: createAppointment_def)

lemma createAppointment_conflict_only_from_guard:
  assumes "fst (createAppointment e s b) = Failure 400 ''Time slot is already booked''"
  shows "\<exists>d. req_scheduledDate b = Some d \<and>
     exactStartCollision s (practitionerId b) d (req_startTime b)"
proof -
  from assms obtain d c where d: "req_scheduledDate b = Some d"
    and "findConflict s (practitionerId b) d (req_startTime b) = Some c"
    by (auto simp: createAppointment_def Let_def split: if_splits option.splits)
  then have "findConflict s (practitionerId b) d (req_startTime b) \<noteq> None"
    by simp
  then have "exactStartCollision s (practitionerId b) d (req_startTime b)"
    by (simp only: findConflict_iff)
  with d show ?thesis by blast
qed

text \<open>
  C1: the conflict query finds a document if and only if an appointment of the same
  practitioner, with the same scheduledDate and exactly the same startTime string, has
  status scheduled or confirmed. The booking is rejected with 'Time slot is already
  booked' only in that case, and, once the request has passed validation and the
  patient and practitioner lookups (the checks ahead of the guard), exactly in that
  case. So a booking with a different startTime string is not rejected by the guard,
  whatever its interval.
\<close>

theorem createAppointment_conflict_guard:
  "(findConflict s pid d st \<noteq> None \<longleftrightarrow> exactStartCollision s pid d st) \<and>
   (fst (createAppointment e s b) = Failure 400 ''Time slot is already booked'' \<longrightarrow>
      (\<exists>d'. req_scheduledDate b = Some d' \<and>
            exactStartCollision s (practitionerId b) d' (req_startTime b))) \<and>
   (createValid b \<and> req_scheduledDate b = Some d \<and>
    findPatientById s (patientId b) \<noteq> None \<and> findPractitionerById s (practitionerId b) \<noteq> None \<longrightarrow>
      (fst (createAppointment e s b) = Failure 400 ''Time slot is already booked'' \<longleftrightarrow>
       exactStartCollision s (practitionerId b) d (req_startTime b)))"
proof (intro conjI impI)
  show "findConflict s pid d st \<noteq> None \<longleftrightarrow> exactStartCollision s pid d st"
    by (rule findConflict_iff)
next
  assume "fst (createAppointment e s b) = Failure 400 ''Time slot is already booked''"
  then show "\<exists>d'. req_scheduledDate b = Some d' \<and>
            exactStartCollision s (practitionerId b) d' (req_startTime b)"
    by (rule createAppointment_conflict_only_from_guard)
next
  assume h: "createValid b \<and> req_scheduledDate b = Some d \<and>
    findPatientById s (patientId b) \<noteq> None \<and> findPractitionerById s (practitionerId b) \<noteq> None"
  then obtain p pr where "findPatientById s (patientId b) = Some p"
      "findPractitionerById s (practitionerId b) = Some pr"
    by auto
  with h have "fst (createAppointment e s b) = Failure 400 ''Time slot is already booked'' \<longleftrightarrow>
      findConflict s (practitionerId b) d (req_startTime b) \<noteq> None"
    by (simp add: createAppointment_reaches_guard[where d = d] Let_def split: option.splits)
  then show "fst (createAppointment e s b) = Failure 400 ''Time slot is already booked'' \<longleftrightarrow>
       exactStartCollision s (practitionerId b) d (req_startTime b)"
    by (simp only: findConflict_iff)
qed

lemma bookingA_valid: "createValid bookingA" "createValid bookingB"
  by (simp_all add: createValid_def bookingA_def bookingB_def isMongoId_def isHexDigit_def
      therapyTypes_def patId_def pracId_def)

text \<open>
  After the booking of 10:00--10:30: the same booking again is rejected; a booking of
  10:15--10:45 (1717236900000 to 1717238700000), which overlaps it, passes the guard.
\<close>

theorem createAppointment_conflict_guard_witness:
  "createValid bookingA \<and> req_scheduledDate bookingA = Some 1717200000000 \<and>
   findPatientById storeA (patientId bookingA) \<noteq> None \<and>
   findPractitionerById storeA (practitionerId bookingA) \<noteq> None \<and>
   exactStartCollision storeA (practitionerId bookingA) 1717200000000 (req_startTime bookingA) \<and>
   fst (createAppointment env2 storeA bookingA) = Failure 400 ''Time slot is already booked'' \<and>
   createValid bookingB \<and> req_scheduledDate bookingB = Some 1717200000000 \<and>
   findPatientById storeA (patientId bookingB) \<noteq> None \<and>
   findPractitionerById storeA (practitionerId bookingB) \<noteq> None \<and>
   \<not> exactStartCollision storeA (practitionerId bookingB) 1717200000000 (req_startTime bookingB) \<and>
   fst (createAppointment env2 storeA bookingB) \<noteq> Failure 400 ''Time slot is already booked'' \<and>
   overlaps 1717236900000 1717238700000
     (timeOnDay 0 1717200000000 ''10:00'') (timeOnDay 0 1717200000000 ''10:30'')"
proof -
  have a: "createValid bookingA \<and> req_scheduledDate bookingA = Some 1717200000000 \<and>
     findPatientById storeA (patientId bookingA) \<noteq> None \<and>
     findPractitionerById storeA (practitionerId bookingA) \<noteq> None"
    by (simp add: bookingA_valid) (simp add: bookingA_def storeA_eq findPatientById_def findPractitionerById_def)
  have b: "createValid bookingB \<and> req_scheduledDate bookingB = Some 1717200000000 \<and>
     findPatientById storeA (patientId bookingB) \<noteq> None \<and>
     findPractitionerById storeA (practitionerId bookingB) \<noteq> None"
    by (simp add: bookingA_valid) (simp add: bookingB_def bookingA_def storeA_eq findPatientById_def findPractitionerById_def)
  have ca: "exactStartCollision storeA (practitionerId bookingA) 1717200000000 (req_startTime bookingA)"
    by (simp add: exactStartCollision_def storeA_eq newAppointment_def bookingA_def schemaDefaultStatus_def)
  have cb: "\<not> exactStartCollision storeA (practitionerId bookingB) 1717200000000 (req_startTime bookingB)"
    by (simp add: exactStartCollision_def storeA_eq newAppointment_def bookingA_def bookingB_def)
  have o: "overlaps 1717236900000 1717238700000
     (timeOnDay 0 1717200000000 ''10:00'') (timeOnDay 0 1717200000000 ''10:30'')"
    by (simp add: overlaps_def timeOnDay_def element_def parseIntOf_def parseInt_def isWhiteSpace_def
        hasHexPrefix_def digitValue_def setHours_def timeClip_def msPerDay_def)
  have "fst (createAppointment env2 storeA bookingA) = Failure 400 ''Time slot is already booked''"
    using createAppointment_conflict_guard[where s = storeA and e = env2 and b = bookingA
        and d = 1717200000000] a ca
    by simp
  moreover have "fst (createAppointment env2 storeA bookingB) \<noteq> Failure 400 ''Time slot is already booked''"
    using createAppointment_conflict_guard[where s = storeA and e = env2 and b = bookingB
        and d = 1717200000000] b cb
    by simp
  ultimately show ?thesis
    using a b ca cb o by simp
qed

section \<open>Booking: reminders and notification\<close>

lemma createAppointment_Success:
  assumes "createAppointment e s b = (Success c m a, s')"
  shows "\<exists>d p. req_scheduledDate b = Some d \<and> findPatientById s (patientId b) = Some p \<and>
     a = newAppointment e b d \<and> c = 201 \<and> m = ''Appointment created successfully'' \<and>
     appointments s' = appointments s @ [a] \<and>
     notifications s' = notifications s @ [confirmationNotification p a]"
  using assms
  by (auto simp: createAppointment_def Let_def logError_def split: if_splits option.splits)

text \<open>
  C7: on every successful creation the reminder list of the new appointment (returned
  and stored) is exactly the email reminder at scheduledDate minus 24 hours followed by
  the sms reminder at scheduledDate minus 2 hours. It is a function of the scheduledDate
  alone: any other successful creation with the same scheduledDate has the same list.
\<close>

theorem createAppointment_reminders:
  assumes "createAppointment e s b = (Success c m a, s')"
  shows "\<exists>d. req_scheduledDate b = Some d \<and>
     reminders a = [\<lparr>reminderType = ''email'', scheduledTime = d - 86400000\<rparr>,
                    \<lparr>reminderType = ''sms'', scheduledTime = d - 7200000\<rparr>] \<and>
     reminders a = defaultReminders d \<and>
     a \<in> set (appointments s') \<and>
     (\<forall>e2 s2 b2 c2 m2 a2 s2'.
        createAppointment e2 s2 b2 = (Success c2 m2 a2, s2') \<and> req_scheduledDate b2 = Some d \<longrightarrow>
        reminders a2 = reminders a)"
proof -
  from createAppointment_Success[OF assms] obtain d where
    d: "req_scheduledDate b = Some d" and a: "a = newAppointment e b d"
    and s': "appointments s' = appointments s @ [a]"
    by blast
  have r: "reminders a = defaultReminders d"
    by (simp add: a newAppointment_def)
  have "reminders a2 = reminders a"
    if "createAppointment e2 s2 b2 = (Success c2 m2 a2, s2')" "req_scheduledDate b2 = Some d"
    for e2 s2 b2 c2 m2 a2 s2'
  proof -
    from createAppointment_Success[OF that(1)] that(2) have "a2 = newAppointment e2 b2 d"
      by auto
    then show ?thesis
      by (simp add: r newAppointment_def)
  qed
  with d r s' show ?thesis
    by (auto simp: defaultReminders_def)
qed

theorem createAppointment_reminders_witness:
  "createAppointment env1 store0 bookingA =
     (Success 201 ''Appointment created successfully'' (newAppointment env1 bookingA 1717200000000),
      storeA) \<and>
   reminders (newAppointment env1 bookingA 1717200000000) =
     [\<lparr>reminderType = ''email'', scheduledTime = 1717113600000\<rparr>,
      \<lparr>reminderType = ''sms'', scheduledTime = 1717192800000\<rparr>]"
proof -
  have h: "createAppointment env1 store0 bookingA =
     (Success 201 ''Appointment created successfully'' (newAppointment env1 bookingA 1717200000000),
      storeA)"
    by (simp add: storeA_eq)
      (simp add: createAppointment_def store0_def bookingA_def
        findPractitionerById_def createValid_def isMongoId_def isHexDigit_def therapyTypes_def
        patId_def pracId_def findPatientById_def findConflict_def env1_def Let_def)
  show ?thesis
    using createAppointment_reminders[OF h] h by (auto simp: bookingA_def)
qed

text \<open>
  C9, as stated, at a concrete input: the appointment is written, then saving the
  Notification document fails. The appointment stays stored, but the request fails
  with status 500.
\<close>

theorem createAppointment_notification_save_counterexample:
  "fst (createAppointment envNotificationFails store0 bookingA) =
     Failure 500 ''Server error creating appointment'' \<and>
   appointments (snd (createAppointment envNotificationFails store0 bookingA)) =
     [newAppointment envNotificationFails bookingA 1717200000000]"
  by (simp add: createAppointment_def store0_def bookingA_def envNotificationFails_def
        findPractitionerById_def createValid_def isMongoId_def isHexDigit_def therapyTypes_def
        patId_def pracId_def findPatientById_def findConflict_def env1_def Let_def logError_def)

text \<open>
  C9, amended: once the appointment has been written, no failure of the notification
  step rolls it back. A failure of the dispatch of email/SMS is logged (one line on the
  error log, nothing else changes) and the request still returns the created
  appointment with status 201, the Notification document being saved. A failure to
  save the Notification document makes the request fail with status 500 and is logged;
  the appointment remains stored and no Notification document is added.
\<close>

theorem createAppointment_notification_failures:
  assumes "createValid b" "req_scheduledDate b = Some d"
    "findPatientById s (patientId b) = Some p"
    "findPractitionerById s (practitionerId b) = Some pr"
    "findConflict s (practitionerId b) d (req_startTime b) = None"
  shows "appointments (snd (createAppointment e s b)) = appointments s @ [newAppointment e b d] \<and>
     (\<not> notificationSaveFails e \<longrightarrow>
        fst (createAppointment e s b) =
          Success 201 ''Appointment created successfully'' (newAppointment e b d) \<and>
        notifications (snd (createAppointment e s b)) =
          notifications s @ [confirmationNotification p (newAppointment e b d)]) \<and>
     (\<not> notificationSaveFails e \<and> sendFails e \<longrightarrow>
        errorLog (snd (createAppointment e s b)) =
          errorLog s @ [''Failed to send appointment confirmation:'']) \<and>
     (\<not> notificationSaveFails e \<and> \<not> sendFails e \<longrightarrow>
        errorLog (snd (createAppointment e s b)) = errorLog s) \<and>
     (notificationSaveFails e \<longrightarrow>
        fst (createAppointment e s b) = Failure 500 ''Server error creating appointment'' \<and>
        notifications (snd (createAppointment e s b)) = notifications s \<and>
        errorLog (snd (createAppointment e s b)) = errorLog s @ [''Create appointment error:''])"
  using assms
  by (simp add: createAppointment_reaches_guard[where d = d and p = p] Let_def logError_def)

text \<open>The dispatch fails: the booking is answered with 201, the appointment is
  stored, and the error log holds the line of the inner \<open>catch\<close>.\<close>

theorem createAppointment_notification_failures_witness:
  "createValid bookingA \<and> req_scheduledDate bookingA = Some 1717200000000 \<and>
   findPatientById store0 (patientId bookingA) = Some \<lparr>patient_id = patId, userId = ''u1''\<rparr> \<and>
   findPractitionerById store0 (practitionerId bookingA) = Some \<lparr>practitioner_id = pracId\<rparr> \<and>
   findConflict store0 (practitionerId bookingA) 1717200000000 (req_startTime bookingA) = None \<and>
   sendFails envSendFails \<and> \<not> notificationSaveFails envSendFails \<and>
   fst (createAppointment envSendFails store0 bookingA) =
     Success 201 ''Appointment created successfully'' (newAppointment envSendFails bookingA 1717200000000) \<and>
   appointments (snd (createAppointment envSendFails store0 bookingA)) =
     [newAppointment envSendFails bookingA 1717200000000] \<and>
   errorLog (snd (createAppointment envSendFails store0 bookingA)) =
     [''Failed to send appointment confirmation:''] \<and>
   \<not> sendFails env1 \<and> \<not> notificationSaveFails env1 \<and>
   errorLog (snd (createAppointment env1 store0 bookingA)) = [] \<and>
   notificationSaveFails envNotificationFails \<and>
   errorLog (snd (createAppointment envNotificationFails store0 bookingA)) =
     [''Create appointment error:'']"
proof -
  have h: "createValid bookingA" "req_scheduledDate bookingA = Some 1717200000000"
   "findPatientById store0 (patientId bookingA) = Some \<lparr>patient_id = patId, userId = ''u1''\<rparr>"
   "findPractitionerById store0 (practitionerId bookingA) = Some \<lparr>practitioner_id = pracId\<rparr>"
   "findConflict store0 (practitionerId bookingA) 1717200000000 (req_startTime bookingA) = None"
    by (simp_all add: bookingA_valid)
      (simp_all add: bookingA_def store0_def findPatientById_def findPractitionerById_def
        findConflict_def)
  have e: "sendFails envSendFails" "\<not> notificationSaveFails envSendFails"
    "\<not> sendFails env1" "\<not> notificationSaveFails env1"
    "notificationSaveFails envNotificationFails"
    by (simp_all add: envSendFails_def envNotificationFails_def env1_def)
  have l: "errorLog store0 = []" "appointments store0 = []"
    by (simp_all add: store0_def)
  show ?thesis
    using createAppointment_notification_failures[OF h, of envSendFails]
      createAppointment_notification_failures[OF h, of env1]
      createAppointment_notification_failures[OF h, of envNotificationFails] h e l
    by simp
qed

section \<open>Update, status and cancel\<close>

lemma findAppointmentById_Some:
  "findAppointmentById s i = Some a \<Longrightarrow> appointment_id a = i \<and> a \<in> set (appointments s)"
  by (auto simp: findAppointmentById_def find_Some_iff)

lemma find_saveAppointment:
  "List.find (\<lambda>x. appointment_id x = appointment_id d) xs = Some a \<Longrightarrow>
   List.find (\<lambda>x. appointment_id x = appointment_id d) (saveAppointment d xs) = Some d"
  by (induction xs) (auto split: if_splits)

lemma findAppointmentById_save:
  assumes "findAppointmentById s i = Some a" "appointment_id d = i"
  shows "findAppointmentById (s\<lparr>appointments := saveAppointment d (appointments s)\<rparr>) i = Some d"
  using assms find_saveAppointment[of d "appointments s" a]
  by (auto simp: findAppointmentById_def)

lemma set_saveAppointment: "set (saveAppointment d xs) \<subseteq> insert d (set xs)"
  by (induction xs) auto

lemma assignFields_closed:
  "foldl (assignField b) a allowedFields =
     a\<lparr>scheduledDate := (case upd_scheduledDate b of None \<Rightarrow> scheduledDate a | Some v \<Rightarrow> v),
       startTime := (case upd_startTime b of None \<Rightarrow> startTime a | Some v \<Rightarrow> v),
       endTime := (case upd_endTime b of None \<Rightarrow> endTime a | Some v \<Rightarrow> v),
       duration := (case upd_duration b of None \<Rightarrow> duration a | Some v \<Rightarrow> v),
       notesText := (case upd_notes b of None \<Rightarrow> notesText a | Some v \<Rightarrow> Some v),
       preSessionInstructions :=
         (case upd_preSessionInstructions b of None \<Rightarrow> preSessionInstructions a | Some v \<Rightarrow> Some v),
       postSessionInstructions :=
         (case upd_postSessionInstructions b of None \<Rightarrow> postSessionInstructions a | Some v \<Rightarrow> Some v)\<rparr>"
  by (simp add: allowedFields_def split: option.splits)

text \<open>
  C3: the update of an existing appointment that the caller may access always
  succeeds; nothing in it consults the other appointments, so no conflict check is
  made. Each of scheduledDate, startTime, endTime, duration, notes and the two
  instruction fields takes the value of the request when the request has one and keeps
  its value otherwise; the id, patient, practitioner, therapyType, cost, status,
  cancellation metadata and reminders are unchanged.
\<close>

theorem updateAppointment_frame:
  assumes "findAppointmentById s i = Some a" "\<not> accessDenied s reqUser a"
  shows "\<exists>a'. updateAppointment s reqUser i b =
            (Success 200 ''Appointment updated successfully'' a',
             s\<lparr>appointments := saveAppointment a' (appointments s)\<rparr>) \<and>
     findAppointmentById (snd (updateAppointment s reqUser i b)) i = Some a' \<and>
     scheduledDate a' = (case upd_scheduledDate b of None \<Rightarrow> scheduledDate a | Some v \<Rightarrow> v) \<and>
     startTime a' = (case upd_startTime b of None \<Rightarrow> startTime a | Some v \<Rightarrow> v) \<and>
     endTime a' = (case upd_endTime b of None \<Rightarrow> endTime a | Some v \<Rightarrow> v) \<and>
     duration a' = (case upd_duration b of None \<Rightarrow> duration a | Some v \<Rightarrow> v) \<and>
     notesText a' = (case upd_notes b of None \<Rightarrow> notesText a | Some v \<Rightarrow> Some v) \<and>
     preSessionInstructions a' =
       (case upd_preSessionInstructions b of None \<Rightarrow> preSessionInstructions a | Some v \<Rightarrow> Some v) \<and>
     postSessionInstructions a' =
       (case upd_postSessionInstructions b of None \<Rightarrow> postSessionInstructions a | Some v \<Rightarrow> Some v) \<and>
     appointment_id a' = appointment_id a \<and> patient a' = patient a \<and>
     practitioner a' = practitioner a \<and> therapyType a' = therapyType a \<and>
     cost a' = cost a \<and> status a' = status a \<and>
     cancellationReason a' = cancellationReason a \<and> cancelledBy a' = cancelledBy a \<and>
     cancelledAt a' = cancelledAt a \<and> reminders a' = reminders a"
proof -
  let ?a' = "foldl (assignField b) a allowedFields"
  have r: "updateAppointment s reqUser i b =
            (Success 200 ''Appointment updated successfully'' ?a',
             s\<lparr>appointments := saveAppointment ?a' (appointments s)\<rparr>)"
    using assms by (simp add: updateAppointment_def Let_def)
  have id: "appointment_id ?a' = i"
    using findAppointmentById_Some[OF assms(1)] by (simp add: assignFields_closed)
  have f: "findAppointmentById (snd (updateAppointment s reqUser i b)) i = Some ?a'"
    unfolding r using findAppointmentById_save[OF assms(1) id] by simp
  show ?thesis
    using r f by (intro exI[of _ ?a']) (simp add: assignFields_closed)
qed


lemma storeAB_appointments:
  "appointments storeAB =
     [newAppointment env1 bookingA 1717200000000, newAppointment env2 bookingB 1717200000000]"
  by (simp add: storeAB_def storeA_eq createAppointment_def bookingA_valid findPatientById_def
      findPractitionerById_def findConflict_def Let_def bookingB_def bookingA_def env2_def
      newAppointment_def createValid_def isMongoId_def isHexDigit_def therapyTypes_def
      patId_def pracId_def)

text \<open>
  The appointment of 10:15--10:45 is moved to 10:00--10:30, where the same practitioner
  already has an active appointment: the update succeeds and the collection then holds
  two scheduled appointments with the same practitioner, date and start time.
\<close>

theorem updateAppointment_frame_witness:
  "findAppointmentById storeAB ''a2'' = Some (newAppointment env2 bookingB 1717200000000) \<and>
   \<not> accessDenied storeAB adminUser (newAppointment env2 bookingB 1717200000000) \<and>
   exactStartCollision storeAB pracId 1717200000000 ''10:00'' \<and>
   fst (updateAppointment storeAB adminUser ''a2'' moveToTen) =
     Success 200 ''Appointment updated successfully''
       ((newAppointment env2 bookingB 1717200000000)\<lparr>startTime := ''10:00'', endTime := ''10:30''\<rparr>) \<and>
   map startTime (appointments (snd (updateAppointment storeAB adminUser ''a2'' moveToTen))) =
     [''10:00'', ''10:00''] \<and>
   map status (appointments (snd (updateAppointment storeAB adminUser ''a2'' moveToTen))) =
     [Scheduled, Scheduled]"
proof -
  have h: "findAppointmentById storeAB ''a2'' = Some (newAppointment env2 bookingB 1717200000000)"
    "\<not> accessDenied storeAB adminUser (newAppointment env2 bookingB 1717200000000)"
    by (simp_all add: findAppointmentById_def storeAB_appointments accessDenied_def adminUser_def)
      (simp add: newAppointment_def env1_def env2_def)
  have c: "exactStartCollision storeAB pracId 1717200000000 ''10:00''"
    by (simp add: exactStartCollision_def storeAB_appointments newAppointment_def bookingA_def
        schemaDefaultStatus_def)
  from updateAppointment_frame[OF h, of moveToTen] obtain a' where
    r: "updateAppointment storeAB adminUser ''a2'' moveToTen =
            (Success 200 ''Appointment updated successfully'' a',
             storeAB\<lparr>appointments := saveAppointment a' (appointments storeAB)\<rparr>)"
    and f: "startTime a' = ''10:00''" "endTime a' = ''10:30''" "appointment_id a' = ''a2''"
      "status a' = Scheduled"
    by (auto simp: moveToTen_def newAppointment_def env2_def schemaDefaultStatus_def)
  have a': "a' = (newAppointment env2 bookingB 1717200000000)\<lparr>startTime := ''10:00'', endTime := ''10:30''\<rparr>"
    using r h by (simp add: updateAppointment_def assignFields_closed moveToTen_def Let_def)
  show ?thesis
    using h c r f
    by (simp add: a' storeAB_appointments)
      (simp add: newAppointment_def env1_def env2_def bookingA_def schemaDefaultStatus_def)
qed

lemma statusOfString_stringOfStatus: "statusOfString (stringOfStatus st) = Some st"
  by (cases st) (simp_all add: statusOfString_def)

text \<open>
  C5: there is no transition guard. For every existing appointment, whatever its
  status, and every status value of the six, the status update stores that status; when
  a (non-empty) cancellationReason is given it also stores cancellationReason,
  cancelledBy (the caller's role) and cancelledAt (the current time), whatever the new
  status is; without one the three are left as they were. The response is the success
  with the updated appointment (provided the status notification can be saved).
\<close>

theorem updateStatus_permissive:
  assumes "findAppointmentById s i = Some a" "new_status b = stringOfStatus st"
    "new_cancellationReason b \<noteq> Some []"
  shows "\<exists>a'. findAppointmentById (snd (updateStatus e s reqUser i b)) i = Some a' \<and>
     status a' = st \<and>
     (\<forall>r. new_cancellationReason b = Some r \<longrightarrow>
        cancellationReason a' = Some r \<and> cancelledBy a' = Some (role reqUser) \<and>
        cancelledAt a' = Some (now e)) \<and>
     (new_cancellationReason b = None \<longrightarrow>
        cancellationReason a' = cancellationReason a \<and> cancelledBy a' = cancelledBy a \<and>
        cancelledAt a' = cancelledAt a) \<and>
     (\<not> notificationSaveFails e \<longrightarrow>
        fst (updateStatus e s reqUser i b) =
          Success 200 ''Appointment status updated successfully'' a')"
proof -
  let ?a' = "stampCancellation e reqUser (new_cancellationReason b) (a\<lparr>status := st\<rparr>)"
  let ?s1 = "s\<lparr>appointments := saveAppointment ?a' (appointments s)\<rparr>"
  have v: "statusValid b"
    using assms(2,3)
    by (cases "new_cancellationReason b")
      (auto simp: statusValid_def statusOfString_stringOfStatus Suc_le_eq)
  have id: "appointment_id ?a' = i"
    using findAppointmentById_Some[OF assms(1)] by (simp add: stampCancellation_def)
  have f1: "findAppointmentById ?s1 i = Some ?a'"
    by (rule findAppointmentById_save[OF assms(1) id])
  have ap: "appointments (snd (updateStatus e s reqUser i b)) = appointments ?s1"
    using v assms(1,2)
    by (simp add: updateStatus_def statusOfString_stringOfStatus Let_def logError_def)
  have f: "findAppointmentById (snd (updateStatus e s reqUser i b)) i = Some ?a'"
    using f1 ap by (simp add: findAppointmentById_def)
  have r: "\<not> notificationSaveFails e \<longrightarrow>
        fst (updateStatus e s reqUser i b) =
          Success 200 ''Appointment status updated successfully'' ?a'"
    using v assms(1,2)
    by (simp add: updateStatus_def statusOfString_stringOfStatus Let_def)
  have m: "status ?a' = st"
    "\<forall>r. new_cancellationReason b = Some r \<longrightarrow>
        cancellationReason ?a' = Some r \<and> cancelledBy ?a' = Some (role reqUser) \<and>
        cancelledAt ?a' = Some (now e)"
    "new_cancellationReason b = None \<longrightarrow>
        cancellationReason ?a' = cancellationReason a \<and> cancelledBy ?a' = cancelledBy a \<and>
        cancelledAt ?a' = cancelledAt a"
    using assms(3) by (auto simp: stampCancellation_def truthy_def)
  show ?thesis
    using f r m by (intro exI[of _ ?a']) simp
qed


lemma storeA_find: "findAppointmentById storeA ''a1'' = Some (newAppointment env1 bookingA 1717200000000)"
  by (simp add: findAppointmentById_def storeA_eq) (simp add: newAppointment_def env1_def)

lemma storeCancelled_appointments:
  "appointments storeCancelled =
     [(newAppointment env1 bookingA 1717200000000)
        \<lparr>status := Cancelled, cancelledBy := Some ''patient'', cancelledAt := Some 1717000001000\<rparr>]"
  by (simp add: storeCancelled_def cancelAppointment_def storeA_find accessDenied_def
      patientUser_def findPatientByUserId_def Let_def)
    (simp add: storeA_eq newAppointment_def env1_def env2_def bookingA_def)

text \<open>
  A confirmation with a reason stamps the cancellation metadata although the new status
  is confirmed; a cancelled appointment is put back to scheduled.
\<close>

theorem updateStatus_permissive_witness:
  "findAppointmentById storeA ''a1'' = Some (newAppointment env1 bookingA 1717200000000) \<and>
   new_status confirmWithReason = stringOfStatus Confirmed \<and>
   new_cancellationReason confirmWithReason \<noteq> Some [] \<and>
   map_option status (findAppointmentById (snd (updateStatus env3 storeA adminUser ''a1'' confirmWithReason)) ''a1'')
     = Some Confirmed \<and>
   map_option cancelledBy (findAppointmentById (snd (updateStatus env3 storeA adminUser ''a1'' confirmWithReason)) ''a1'')
     = Some (Some ''admin'') \<and>
   map_option cancelledAt (findAppointmentById (snd (updateStatus env3 storeA adminUser ''a1'' confirmWithReason)) ''a1'')
     = Some (Some 1717000002000) \<and>
   map status (appointments storeCancelled) = [Cancelled] \<and>
   new_status rescheduleBare = stringOfStatus Scheduled \<and>
   new_cancellationReason rescheduleBare \<noteq> Some [] \<and>
   map_option status (findAppointmentById (snd (updateStatus env3 storeCancelled adminUser ''a1'' rescheduleBare)) ''a1'')
     = Some Scheduled"
proof -
  have h1: "findAppointmentById storeA ''a1'' = Some (newAppointment env1 bookingA 1717200000000)"
    "new_status confirmWithReason = stringOfStatus Confirmed"
    "new_cancellationReason confirmWithReason \<noteq> Some []"
    by (simp_all add: storeA_find confirmWithReason_def)
  have h2: "findAppointmentById storeCancelled ''a1'' =
      Some ((newAppointment env1 bookingA 1717200000000)
        \<lparr>status := Cancelled, cancelledBy := Some ''patient'', cancelledAt := Some 1717000001000\<rparr>)"
    "new_status rescheduleBare = stringOfStatus Scheduled"
    "new_cancellationReason rescheduleBare \<noteq> Some []"
    by (simp_all add: findAppointmentById_def storeCancelled_appointments rescheduleBare_def)
      (simp add: newAppointment_def env1_def)
  have c: "map status (appointments storeCancelled) = [Cancelled]"
    by (simp add: storeCancelled_appointments)
  show ?thesis
    using updateStatus_permissive[OF h1, of env3 adminUser]
      updateStatus_permissive[OF h2, of env3 adminUser] h1 h2(2,3) c
    by (auto simp: confirmWithReason_def adminUser_def env3_def)
qed

text \<open>
  C8, as stated, at a concrete input: an appointment cancelled by the patient at time
  1717000001000 is cancelled again by an administrator at time 1717000002000. The call
  succeeds, but cancelledAt and cancelledBy are overwritten.
\<close>

theorem cancelAppointment_again_counterexample:
  "map status (appointments storeCancelled) = [Cancelled] \<and>
   map cancelledAt (appointments storeCancelled) = [Some 1717000001000] \<and>
   map cancelledBy (appointments storeCancelled) = [Some ''patient''] \<and>
   fst (cancelAppointment env3 storeCancelled adminUser ''a1'') =
     Success 200 ''Appointment cancelled successfully'' () \<and>
   map cancelledAt (appointments (snd (cancelAppointment env3 storeCancelled adminUser ''a1''))) =
     [Some 1717000002000] \<and>
   map cancelledBy (appointments (snd (cancelAppointment env3 storeCancelled adminUser ''a1''))) =
     [Some ''admin'']"
  by (simp add: storeCancelled_appointments cancelAppointment_def findAppointmentById_def
      accessDenied_def adminUser_def env3_def Let_def)
    (simp add: newAppointment_def env1_def)

text \<open>
  C8, amended: cancelling an appointment that is already cancelled succeeds (it is not
  an error); the status stays cancelled and every field is unchanged except cancelledAt,
  which is overwritten with the current time, and cancelledBy, which is overwritten with
  the caller's role.
\<close>

theorem cancelAppointment_again:
  assumes "findAppointmentById s i = Some a" "status a = Cancelled" "\<not> accessDenied s reqUser a"
  shows "fst (cancelAppointment e s reqUser i) =
           Success 200 ''Appointment cancelled successfully'' () \<and>
         findAppointmentById (snd (cancelAppointment e s reqUser i)) i =
           Some (a\<lparr>cancelledBy := Some (role reqUser), cancelledAt := Some (now e)\<rparr>)"
proof -
  let ?a' = "a\<lparr>status := Cancelled, cancelledBy := Some (role reqUser), cancelledAt := Some (now e)\<rparr>"
  have eq: "?a' = a\<lparr>cancelledBy := Some (role reqUser), cancelledAt := Some (now e)\<rparr>"
    using assms(2) by simp
  have id: "appointment_id ?a' = i"
    using findAppointmentById_Some[OF assms(1)] by simp
  have r: "cancelAppointment e s reqUser i =
     (Success 200 ''Appointment cancelled successfully'' (),
      s\<lparr>appointments := saveAppointment ?a' (appointments s)\<rparr>)"
    using assms(1,3) by (simp add: cancelAppointment_def Let_def)
  show ?thesis
    unfolding r using findAppointmentById_save[OF assms(1) id] eq by simp
qed

theorem cancelAppointment_again_witness:
  "findAppointmentById storeCancelled ''a1'' =
      Some ((newAppointment env1 bookingA 1717200000000)
        \<lparr>status := Cancelled, cancelledBy := Some ''patient'', cancelledAt := Some 1717000001000\<rparr>) \<and>
   \<not> accessDenied storeCancelled patientUser
      ((newAppointment env1 bookingA 1717200000000)
        \<lparr>status := Cancelled, cancelledBy := Some ''patient'', cancelledAt := Some 1717000001000\<rparr>) \<and>
   fst (cancelAppointment env3 storeCancelled patientUser ''a1'') =
     Success 200 ''Appointment cancelled successfully'' () \<and>
   findAppointmentById (snd (cancelAppointment env3 storeCancelled patientUser ''a1'')) ''a1'' =
      Some ((newAppointment env1 bookingA 1717200000000)
        \<lparr>status := Cancelled, cancelledBy := Some ''patient'', cancelledAt := Some 1717000002000\<rparr>)"
proof -
  let ?a = "(newAppointment env1 bookingA 1717200000000)
        \<lparr>status := Cancelled, cancelledBy := Some ''patient'', cancelledAt := Some 1717000001000\<rparr>"
  have p: "patients storeCancelled = [\<lparr>patient_id = patId, userId = ''u1''\<rparr>]"
    by (simp add: storeCancelled_def cancelAppointment_def storeA_find accessDenied_def
        patientUser_def findPatientByUserId_def Let_def)
      (simp add: storeA_eq newAppointment_def bookingA_def)
  have h: "findAppointmentById storeCancelled ''a1'' = Some ?a" "status ?a = Cancelled"
    "\<not> accessDenied storeCancelled patientUser ?a"
    by (simp_all add: findAppointmentById_def storeCancelled_appointments accessDenied_def
        findPatientByUserId_def p patientUser_def)
      (simp_all add: newAppointment_def env1_def bookingA_def)
  show ?thesis
    using cancelAppointment_again[OF h, of env3] h(1,3)
    by (simp add: patientUser_def env3_def)
qed

section \<open>Cancellation metadata over sequences of requests\<close>

text \<open>
  C4, as stated, at two concrete inputs. A booking followed by a status update to
  cancelled without a reason leaves a cancelled appointment with none of the metadata;
  a booking followed by a status update to confirmed with a reason leaves a confirmed
  appointment with all of them.
\<close>

theorem cancellation_metadata_counterexample:
  "appointments store0 = [] \<and>
   map status (appointments (performAll store0 bareCancelRequests)) = [Cancelled] \<and>
   map cancelledAt (appointments (performAll store0 bareCancelRequests)) = [None] \<and>
   map cancelledBy (appointments (performAll store0 bareCancelRequests)) = [None] \<and>
   map cancellationReason (appointments (performAll store0 bareCancelRequests)) = [None] \<and>
   map status (appointments (performAll store0 stampedConfirmRequests)) = [Confirmed] \<and>
   map cancelledAt (appointments (performAll store0 stampedConfirmRequests)) = [Some 1717000001000] \<and>
   map cancelledBy (appointments (performAll store0 stampedConfirmRequests)) = [Some ''admin''] \<and>
   map cancellationReason (appointments (performAll store0 stampedConfirmRequests)) =
     [Some ''patient requested'']"
proof -
  have a: "performAll store0 bareCancelRequests = snd (updateStatus env2 storeA adminUser ''a1'' cancelBare)"
    "performAll store0 stampedConfirmRequests =
       snd (updateStatus env2 storeA adminUser ''a1'' confirmWithReason)"
    by (simp_all add: performAll_def bareCancelRequests_def stampedConfirmRequests_def storeA_def)
  show ?thesis
    unfolding a
    by (simp add: store0_def updateStatus_def statusValid_def statusOfString_def cancelBare_def
        confirmWithReason_def storeA_find Let_def env2_def stampCancellation_def truthy_def
        adminUser_def)
      (simp add: storeA_eq newAppointment_def env1_def)
qed

lemma create_preserves:
  assumes "\<forall>a \<in> set (appointments s). metadataConsistent a"
  shows "\<forall>a \<in> set (appointments (snd (createAppointment e s b))). metadataConsistent a"
  using assms
  by (auto simp: createAppointment_def Let_def logError_def newAppointment_def
      metadataConsistent_def split: if_splits option.splits)

lemma saved_preserves:
  assumes "\<forall>a \<in> set (appointments s). metadataConsistent a" "metadataConsistent d"
  shows "\<forall>a \<in> set (appointments (s\<lparr>appointments := saveAppointment d (appointments s)\<rparr>)).
           metadataConsistent a"
  using assms set_saveAppointment[of d "appointments s"] by auto

lemma update_preserves:
  assumes "\<forall>a \<in> set (appointments s). metadataConsistent a"
  shows "\<forall>a \<in> set (appointments (snd (updateAppointment s u i b))). metadataConsistent a"
proof (cases "findAppointmentById s i")
  case None
  with assms show ?thesis by (simp add: updateAppointment_def)
next
  case (Some a)
  then have "metadataConsistent a"
    using assms findAppointmentById_Some by blast
  then have "metadataConsistent (foldl (assignField b) a allowedFields)"
    by (simp add: assignFields_closed metadataConsistent_def)
  with Some assms show ?thesis
    using saved_preserves[OF assms] by (simp add: updateAppointment_def Let_def)
qed

lemma status_preserves:
  assumes "\<forall>a \<in> set (appointments s). metadataConsistent a"
  shows "\<forall>a \<in> set (appointments (snd (updateStatus e s u i b))). metadataConsistent a"
proof (cases "findAppointmentById s i")
  case None
  with assms show ?thesis
    by (simp add: updateStatus_def split: option.splits)
next
  case (Some a)
  then have "metadataConsistent a"
    using assms findAppointmentById_Some by blast
  then have c: "metadataConsistent (stampCancellation e u r (a\<lparr>status := st\<rparr>))" for r st
    by (simp add: stampCancellation_def metadataConsistent_def truthy_def split: option.splits)
  have "\<forall>x \<in> set (appointments (s\<lparr>appointments :=
            saveAppointment (stampCancellation e u r (a\<lparr>status := st\<rparr>)) (appointments s)\<rparr>)).
          metadataConsistent x" for r st
    using assms c by (rule saved_preserves)
  with Some assms show ?thesis
    by (simp add: updateStatus_def Let_def logError_def split: option.splits)
qed

lemma cancel_preserves:
  assumes "\<forall>a \<in> set (appointments s). metadataConsistent a"
  shows "\<forall>a \<in> set (appointments (snd (cancelAppointment e s u i))). metadataConsistent a"
proof (cases "findAppointmentById s i")
  case None
  with assms show ?thesis by (simp add: cancelAppointment_def)
next
  case (Some a)
  then have "metadataConsistent a"
    using assms findAppointmentById_Some by blast
  then have "metadataConsistent
     (a\<lparr>status := Cancelled, cancelledBy := Some (role u), cancelledAt := Some (now e)\<rparr>)"
    by (simp add: metadataConsistent_def)
  with Some assms show ?thesis
    using saved_preserves[OF assms] by (simp add: cancelAppointment_def Let_def)
qed

lemma perform_preserves:
  assumes "\<forall>a \<in> set (appointments s). metadataConsistent a"
  shows "\<forall>a \<in> set (appointments (perform s r)). metadataConsistent a"
proof (cases r)
  case (CreateRequest e b)
  show ?thesis
    unfolding CreateRequest perform.simps using assms by (rule create_preserves)
next
  case (UpdateRequest u i b)
  show ?thesis
    unfolding UpdateRequest perform.simps using assms by (rule update_preserves)
next
  case (StatusRequest e u i b)
  show ?thesis
    unfolding StatusRequest perform.simps using assms by (rule status_preserves)
next
  case (CancelRequest e u i)
  show ?thesis
    unfolding CancelRequest perform.simps using assms by (rule cancel_preserves)
qed

lemma performAll_preserves:
  assumes "\<forall>a \<in> set (appointments s). metadataConsistent a"
  shows "\<forall>a \<in> set (appointments (performAll s rs)). metadataConsistent a"
  using assms unfolding performAll_def
proof (induction rs arbitrary: s)
  case Nil
  then show ?case by simp
next
  case (Cons r rs)
  from Cons.prems have "\<forall>a \<in> set (appointments (perform s r)). metadataConsistent a"
    by (rule perform_preserves)
  then show ?case
    using Cons.IH by simp
qed

text \<open>
  C4, amended: in every state reached from an empty appointment collection by any
  sequence of create, update, status-update and cancel requests, cancelledAt is set if
  and only if cancelledBy is set, and cancellationReason is set only if both are. A
  created appointment has status scheduled and none of the three; a successful cancel
  leaves the status cancelled with cancelledAt and cancelledBy set. (The status update
  ties the three to the presence of a reason, not to the status cancelled.)
\<close>

theorem cancellation_metadata_invariant:
  "(appointments s = [] \<longrightarrow>
      (\<forall>a \<in> set (appointments (performAll s rs)).
         (cancelledAt a \<noteq> None \<longleftrightarrow> cancelledBy a \<noteq> None) \<and>
         (cancellationReason a \<noteq> None \<longrightarrow> cancelledAt a \<noteq> None \<and> cancelledBy a \<noteq> None))) \<and>
   (createAppointment e s b = (Success c m a', s') \<longrightarrow>
      status a' = Scheduled \<and> cancelledAt a' = None \<and> cancelledBy a' = None \<and>
      cancellationReason a' = None) \<and>
   (fst (cancelAppointment e s u i) = Success c2 m2 x \<longrightarrow>
      map_option status (findAppointmentById (snd (cancelAppointment e s u i)) i) = Some Cancelled \<and>
      map_option cancelledAt (findAppointmentById (snd (cancelAppointment e s u i)) i) =
        Some (Some (now e)) \<and>
      map_option cancelledBy (findAppointmentById (snd (cancelAppointment e s u i)) i) =
        Some (Some (role u)))"
proof -
  have p1: "appointments s = [] \<longrightarrow>
      (\<forall>a \<in> set (appointments (performAll s rs)).
         (cancelledAt a \<noteq> None \<longleftrightarrow> cancelledBy a \<noteq> None) \<and>
         (cancellationReason a \<noteq> None \<longrightarrow> cancelledAt a \<noteq> None \<and> cancelledBy a \<noteq> None))"
  proof (rule impI)
    assume "appointments s = []"
    then have "\<forall>a \<in> set (appointments s). metadataConsistent a"
      by simp
    then have "\<forall>a \<in> set (appointments (performAll s rs)). metadataConsistent a"
      by (rule performAll_preserves)
    then show "\<forall>a \<in> set (appointments (performAll s rs)).
         (cancelledAt a \<noteq> None \<longleftrightarrow> cancelledBy a \<noteq> None) \<and>
         (cancellationReason a \<noteq> None \<longrightarrow> cancelledAt a \<noteq> None \<and> cancelledBy a \<noteq> None)"
      by (simp add: metadataConsistent_def)
  qed
  have p2: "createAppointment e s b = (Success c m a', s') \<longrightarrow>
      status a' = Scheduled \<and> cancelledAt a' = None \<and> cancelledBy a' = None \<and>
      cancellationReason a' = None"
  proof (rule impI)
    assume "createAppointment e s b = (Success c m a', s')"
    from createAppointment_Success[OF this] obtain d where "a' = newAppointment e b d"
      by blast
    then show "status a' = Scheduled \<and> cancelledAt a' = None \<and> cancelledBy a' = None \<and>
      cancellationReason a' = None"
      by (simp add: newAppointment_def schemaDefaultStatus_def)
  qed
  have p3: "fst (cancelAppointment e s u i) = Success c2 m2 x \<longrightarrow>
      map_option status (findAppointmentById (snd (cancelAppointment e s u i)) i) = Some Cancelled \<and>
      map_option cancelledAt (findAppointmentById (snd (cancelAppointment e s u i)) i) =
        Some (Some (now e)) \<and>
      map_option cancelledBy (findAppointmentById (snd (cancelAppointment e s u i)) i) =
        Some (Some (role u))"
  proof (rule impI)
    assume ok: "fst (cancelAppointment e s u i) = Success c2 m2 x"
    then obtain a where a: "findAppointmentById s i = Some a" and d: "\<not> accessDenied s u a"
      by (auto simp: cancelAppointment_def split: option.splits if_splits)
    let ?a' = "a\<lparr>status := Cancelled, cancelledBy := Some (role u), cancelledAt := Some (now e)\<rparr>"
    have id: "appointment_id ?a' = i"
      using findAppointmentById_Some[OF a] by simp
    have "findAppointmentById (snd (cancelAppointment e s u i)) i = Some ?a'"
      using a d findAppointmentById_save[OF a id] by (simp add: cancelAppointment_def Let_def)
    then show "map_option status (findAppointmentById (snd (cancelAppointment e s u i)) i) = Some Cancelled \<and>
      map_option cancelledAt (findAppointmentById (snd (cancelAppointment e s u i)) i) =
        Some (Some (now e)) \<and>
      map_option cancelledBy (findAppointmentById (snd (cancelAppointment e s u i)) i) =
        Some (Some (role u))"
      by simp
  qed
  show ?thesis
    by (rule conjI[OF p1 conjI[OF p2 p3]])
qed


theorem cancellation_metadata_invariant_witness:
  "appointments store0 = [] \<and>
   list_all (\<lambda>a. (cancelledAt a \<noteq> None) = (cancelledBy a \<noteq> None))
     (appointments (performAll store0 stampedConfirmRequests)) \<and>
   fst (cancelAppointment env2 storeA patientUser ''a1'') =
     Success 200 ''Appointment cancelled successfully'' () \<and>
   map_option status (findAppointmentById (snd (cancelAppointment env2 storeA patientUser ''a1'')) ''a1'')
     = Some Cancelled"
proof -
  have h: "appointments store0 = []"
    by (simp add: store0_def)
  have c: "fst (cancelAppointment env2 storeA patientUser ''a1'') =
     Success 200 ''Appointment cancelled successfully'' ()"
    by (simp add: cancelAppointment_def storeA_find accessDenied_def patientUser_def
        findPatientByUserId_def Let_def)
      (simp add: storeA_eq newAppointment_def bookingA_def)
  have "\<forall>a \<in> set (appointments (performAll store0 stampedConfirmRequests)).
      (cancelledAt a \<noteq> None \<longleftrightarrow> cancelledBy a \<noteq> None) \<and>
      (cancellationReason a \<noteq> None \<longrightarrow> cancelledAt a \<noteq> None \<and> cancelledBy a \<noteq> None)"
    using cancellation_metadata_invariant[where s = store0 and rs = stampedConfirmRequests,
        THEN conjunct1] h
    by (rule mp)
  then have i1: "list_all (\<lambda>a. (cancelledAt a \<noteq> None) = (cancelledBy a \<noteq> None))
     (appointments (performAll store0 stampedConfirmRequests))"
    by (simp add: list_all_iff)
  have i2: "map_option status
       (findAppointmentById (snd (cancelAppointment env2 storeA patientUser ''a1'')) ''a1'')
     = Some Cancelled"
    using cancellation_metadata_invariant[where s = storeA and e = env2 and u = patientUser
        and i = "''a1''", THEN conjunct2, THEN conjunct2, THEN mp, OF c]
    by (rule conjunct1)
  show ?thesis
    using h c i1 i2 by (intro conjI)
qed

end
